theory Spec2Isabelle
  imports
    Main
    "HOL-Library.Char_ord"
    "HOL-Library.List_Lexorder"
    "HOL-Library.Product_Lexorder"
begin

section \<open>Time, machine integers and errors\<close>

text \<open>
  A \<open>time.Time\<close> is modelled by the instant it denotes, in nanoseconds since the Unix
  epoch, together with the offset of its location at that instant, in seconds east of
  UTC (the monotonic reading and the name of the location are dropped). The zero value
  of \<open>time.Time\<close> is January 1 of year 1, UTC; \<open>IsZero\<close> looks at the instant only.
  \<open>UnixNano\<close> computes in \<open>int64\<close>, so it wraps.
\<close>

type_synonym time = "int \<times> int"

abbreviation instant :: "time \<Rightarrow> int" where
  "instant t \<equiv> fst t"

abbreviation zone :: "time \<Rightarrow> int" where
  "zone t \<equiv> snd t"

definition utc :: "int \<Rightarrow> time" where
  "utc n = (n, 0)"

definition UTC :: "time \<Rightarrow> time" where
  "UTC t = (instant t, 0)"

definition int64 :: "int \<Rightarrow> int" where
  "int64 i = (i + 2 ^ 63) mod 2 ^ 64 - 2 ^ 63"

definition zero_time :: time where
  "zero_time = utc (- 62135596800 * 1000000000)"

definition IsZero :: "time \<Rightarrow> bool" where
  "IsZero t = (instant t = instant zero_time)"

definition UnixNano :: "time \<Rightarrow> int" where
  "UnixNano t = int64 (instant t)"

text \<open>
  \<open>Time.MarshalJSON\<close> writes the time in RFC 3339 with nanoseconds: the wall clock
  of the time's own location, followed by \<open>Z\<close> or by the offset in hours and minutes
  (the offset in minutes is the offset in seconds divided by 60, truncated towards
  zero). It refuses a time whose year, in the time's own location, is outside
  \<open>[0, 9999]\<close> or whose offset is 24 hours or more. \<open>Time.UnmarshalJSON\<close> reads the
  wall clock and the printed offset back, so \<open>json_time t\<close> is the time that comes back
  for \<open>t\<close>: the instant moves by the seconds of the offset that were not printed.
\<close>

definition zone_printed :: "int \<Rightarrow> int" where
  "zone_printed off = 60 * (sgn off * (\<bar>off\<bar> div 60))"

definition time_marshalable :: "time \<Rightarrow> bool" where
  "time_marshalable t =
     (- 62167219200 * 1000000000 \<le> instant t + zone t * 1000000000
      \<and> instant t + zone t * 1000000000 < 253402300800 * 1000000000
      \<and> \<bar>zone t\<bar> < 86400)"

definition json_time :: "time \<Rightarrow> time" where
  "json_time t =
     (instant t + (zone t - zone_printed (zone t)) * 1000000000, zone_printed (zone t))"

text \<open>
  \<open>json.Marshal\<close> writes a string as UTF-8 and replaces every byte that does not
  belong to a valid encoding by the replacement character U+FFFD (bytes EF BF BD);
  \<open>json_string s\<close> is the string that is read back for \<open>s\<close>. \<open>rune_len\<close> is the
  length of the valid encoding at the head of a string (0 when there is none), after
  \<open>utf8.DecodeRuneInString\<close>.
\<close>

definition byte_in :: "nat \<Rightarrow> nat \<Rightarrow> char \<Rightarrow> bool" where
  "byte_in lo hi c = (lo \<le> of_char c \<and> of_char c \<le> hi)"

fun rune_len :: "string \<Rightarrow> nat" where
  "rune_len [] = 0"
| "rune_len (b # rest) =
     (if byte_in 0 127 b then 1
      else if byte_in 194 223 b then
        (case rest of
           c1 # r1 \<Rightarrow> if byte_in 128 191 c1 then 2 else 0
         | _ \<Rightarrow> 0)
      else if byte_in 224 239 b then
        (case rest of
           c1 # c2 # r2 \<Rightarrow>
             if byte_in (if of_char b = (224 :: nat) then 160 else 128)
                        (if of_char b = (237 :: nat) then 159 else 191) c1
                \<and> byte_in 128 191 c2
             then 3 else 0
         | _ \<Rightarrow> 0)
      else if byte_in 240 244 b then
        (case rest of
           c1 # c2 # c3 # r3 \<Rightarrow>
             if byte_in (if of_char b = (240 :: nat) then 144 else 128)
                        (if of_char b = (244 :: nat) then 143 else 191) c1
                \<and> byte_in 128 191 c2 \<and> byte_in 128 191 c3
             then 4 else 0
         | _ \<Rightarrow> 0)
      else 0)"

text \<open>\<open>json_string_from k s\<close>: \<open>k\<close> bytes of the encoding under way are still to be
  copied.\<close>

fun json_string_from :: "nat \<Rightarrow> string \<Rightarrow> string" where
  "json_string_from k [] = []"
| "json_string_from (Suc k) (b # rest) = b # json_string_from k rest"
| "json_string_from 0 (b # rest) =
     (case rune_len (b # rest) of
        0 \<Rightarrow> [CHR 0xEF, CHR 0xBF, CHR 0xBD] @ json_string_from 0 rest
      | Suc m \<Rightarrow> b # json_string_from m rest)"

definition json_string :: "string \<Rightarrow> string" where
  "json_string s = json_string_from 0 s"

datatype error =
    ErrDatabaseNotOpen
  | ErrBolt
  | ErrMarshal
  | ErrUnmarshal
  | ErrInvalidPayload
  | ErrTaskNotFound
  | ErrUserNotFound
  | ErrPgUnavailable
  | ErrPgUniqueViolation
  | ErrUnsupportedOperation string
  | ErrUnsupportedEntity string
  | ErrNotConfigured

section \<open>Domain objects\<close>

record User =
  uID :: string
  uEmail :: string
  uRole :: string
  uStatus :: string
  uMetadata :: "(string \<times> string) list"
  uCreatedAt :: time
  uUpdatedAt :: time

record Task =
  tID :: string
  tUserID :: string
  tTitle :: string
  tDescription :: string
  tStatus :: string
  tPriority :: int
  tDueDate :: "time option"
  tMetadata :: "(string \<times> string) list"
  tCreatedAt :: time
  tUpdatedAt :: time

definition zero_User :: User where
  "zero_User = \<lparr>uID = [], uEmail = [], uRole = [], uStatus = [], uMetadata = [],
     uCreatedAt = zero_time, uUpdatedAt = zero_time\<rparr>"

definition zero_Task :: Task where
  "zero_Task = \<lparr>tID = [], tUserID = [], tTitle = [], tDescription = [], tStatus = [],
     tPriority = 0, tDueDate = None, tMetadata = [], tCreatedAt = zero_time,
     tUpdatedAt = zero_time\<rparr>"

section \<open>The JSON library, as far as the buffer uses it\<close>

text \<open>
  The code does three things with a \<open>json.RawMessage\<close>: it decodes it into a
  \<open>domain.User\<close>, it decodes it into a \<open>domain.Task\<close>, and it embeds it when the
  enclosing item is encoded. A raw message is therefore modelled by what these three
  operations yield: \<open>RawNil\<close> is the nil slice (decoding fails on empty input, encoding
  writes \<open>null\<close>), \<open>RawInvalid\<close> is a byte sequence that is not JSON (decoding and
  encoding both fail), and \<open>RawJSON u t\<close> is a JSON text whose decoding as a user gives
  \<open>u\<close> and as a task gives \<open>t\<close> (\<open>None\<close> where the decoder reports an error).
\<close>

datatype RawMessage =
    RawNil
  | RawJSON "User option" "Task option"
  | RawInvalid

fun Unmarshal_User :: "RawMessage \<Rightarrow> error + User" where
  "Unmarshal_User (RawJSON (Some u) t) = Inr u"
| "Unmarshal_User _ = Inl ErrUnmarshal"

fun Unmarshal_Task :: "RawMessage \<Rightarrow> error + Task" where
  "Unmarshal_Task (RawJSON u (Some t)) = Inr t"
| "Unmarshal_Task _ = Inl ErrUnmarshal"

text \<open>
  The two domain types share the JSON keys \<open>id\<close>, \<open>status\<close>, \<open>metadata\<close>,
  \<open>created_at\<close> and \<open>updated_at\<close>; the decoder ignores unknown keys.
\<close>

definition Task_of_User_json :: "User \<Rightarrow> Task" where
  "Task_of_User_json u = zero_Task\<lparr>tID := uID u, tStatus := uStatus u,
     tMetadata := uMetadata u, tCreatedAt := uCreatedAt u, tUpdatedAt := uUpdatedAt u\<rparr>"

definition User_of_Task_json :: "Task \<Rightarrow> User" where
  "User_of_Task_json t = zero_User\<lparr>uID := tID t, uStatus := tStatus t,
     uMetadata := tMetadata t, uCreatedAt := tCreatedAt t, uUpdatedAt := tUpdatedAt t\<rparr>"

text \<open>A user and a task as they are read back from the JSON that \<open>json.Marshal\<close>
  writes for them (metadata keys that coincide once written are not merged here).\<close>

definition json_User :: "User \<Rightarrow> User" where
  "json_User u =
     \<lparr>uID = json_string (uID u), uEmail = json_string (uEmail u),
      uRole = json_string (uRole u), uStatus = json_string (uStatus u),
      uMetadata = map (\<lambda>kv. (json_string (fst kv), json_string (snd kv))) (uMetadata u),
      uCreatedAt = json_time (uCreatedAt u), uUpdatedAt = json_time (uUpdatedAt u)\<rparr>"

definition json_Task :: "Task \<Rightarrow> Task" where
  "json_Task t =
     \<lparr>tID = json_string (tID t), tUserID = json_string (tUserID t),
      tTitle = json_string (tTitle t), tDescription = json_string (tDescription t),
      tStatus = json_string (tStatus t), tPriority = tPriority t,
      tDueDate = map_option json_time (tDueDate t),
      tMetadata = map (\<lambda>kv. (json_string (fst kv), json_string (snd kv))) (tMetadata t),
      tCreatedAt = json_time (tCreatedAt t), tUpdatedAt = json_time (tUpdatedAt t)\<rparr>"

definition Marshal_User :: "User \<Rightarrow> error + RawMessage" where
  "Marshal_User u =
     (if time_marshalable (uCreatedAt u) \<and> time_marshalable (uUpdatedAt u)
      then Inr (RawJSON (Some (json_User u)) (Some (Task_of_User_json (json_User u))))
      else Inl ErrMarshal)"

definition Marshal_Task :: "Task \<Rightarrow> error + RawMessage" where
  "Marshal_Task t =
     (if time_marshalable (tCreatedAt t) \<and> time_marshalable (tUpdatedAt t)
         \<and> (case tDueDate t of None \<Rightarrow> True | Some d \<Rightarrow> time_marshalable d)
      then Inr (RawJSON (Some (User_of_Task_json (json_Task t))) (Some (json_Task t)))
      else Inl ErrMarshal)"

section \<open>Buffer items and their keys\<close>

record Item =
  ID :: string
  UserID :: string
  Entity :: string
  Operation :: string
  Data :: RawMessage
  Priority :: int
  Retries :: int
  Timestamp :: time
  bucketKey :: string

definition EntityProfile :: string where "EntityProfile = ''profile''"
definition EntityTask :: string where "EntityTask = ''task''"
definition OperationCreate :: string where "OperationCreate = ''create''"
definition OperationUpdate :: string where "OperationUpdate = ''update''"
definition OperationDelete :: string where "OperationDelete = ''delete''"

text \<open>
  A value of the bucket is a byte sequence. \<open>Doc it\<close> is a JSON document that
  \<open>json.Unmarshal\<close> reads as the item \<open>it\<close> (the unexported \<open>bucketKey\<close> is not part
  of it); \<open>Junk\<close> is any value that does not decode into an item. For an item \<open>i\<close>,
  \<open>json.Marshal\<close> writes the document \<open>stored_form i\<close>: the strings and the time are
  read back as JSON carries them, and a nil payload is written as \<open>null\<close>.
\<close>

datatype blob = Doc Item | Junk string

fun embedded :: "RawMessage \<Rightarrow> RawMessage" where
  "embedded RawNil = RawJSON (Some zero_User) (Some zero_Task)"
| "embedded r = r"

definition stored_form :: "Item \<Rightarrow> blob" where
  "stored_form i =
     Doc \<lparr>ID = json_string (ID i), UserID = json_string (UserID i),
          Entity = json_string (Entity i), Operation = json_string (Operation i),
          Data = embedded (Data i), Priority = Priority i, Retries = Retries i,
          Timestamp = json_time (Timestamp i), bucketKey = []\<rparr>"

definition json_Marshal_Item :: "Item \<Rightarrow> error + blob" where
  "json_Marshal_Item it =
     (if Data it = RawInvalid \<or> \<not> time_marshalable (Timestamp it) then Inl ErrMarshal
      else Inr (stored_form it))"

fun json_Unmarshal_Item :: "blob \<Rightarrow> error + Item" where
  "json_Unmarshal_Item (Doc it) = Inr it"
| "json_Unmarshal_Item (Junk s) = Inl ErrUnmarshal"

subsection \<open>Formatting: \<open>%d\<close> and \<open>%020d\<close>\<close>

definition digit_char :: "nat \<Rightarrow> char" where
  "digit_char d = char_of (48 + d)"

fun dec_nat :: "nat \<Rightarrow> string" where
  "dec_nat n = (if n < 10 then [digit_char n]
                else dec_nat (n div 10) @ [digit_char (n mod 10)])"

declare dec_nat.simps [simp del]

definition pad0 :: "nat \<Rightarrow> string \<Rightarrow> string" where
  "pad0 w s = replicate (w - length s) (CHR ''0'') @ s"

definition fmt_d :: "int \<Rightarrow> string" where
  "fmt_d i = (if i < 0 then CHR ''-'' # dec_nat (nat (- i)) else dec_nat (nat i))"

text \<open>With the zero flag the sign counts towards the width.\<close>

definition fmt_020d :: "int \<Rightarrow> string" where
  "fmt_020d i = (if i < 0 then CHR ''-'' # pad0 19 (dec_nat (nat (- i)))
                 else pad0 20 (dec_nat (nat i)))"

definition buildKey :: "Item \<Rightarrow> string" where
  "buildKey item =
     fmt_d (Priority item) @ ''_'' @ fmt_020d (UnixNano (Timestamp item)) @ ''_'' @ ID item"

text \<open>The tuple by which the specification orders records.\<close>

definition order_tuple :: "Item \<Rightarrow> int \<times> int \<times> string" where
  "order_tuple item = (Priority item, UnixNano (Timestamp item), ID item)"

text \<open>
  A digit string of fixed width, most significant digit first; it is what \<open>%020d\<close>
  prints for a number that fits (used in the proofs about key order).
\<close>

fun digitsN :: "nat \<Rightarrow> nat \<Rightarrow> string" where
  "digitsN 0 n = []"
| "digitsN (Suc k) n = digitsN k (n div 10) @ [digit_char (n mod 10)]"

section \<open>The environment and the mutable world\<close>

text \<open>
  What the code obtains from outside is given by oracles, indexed by how many readings
  of that kind were made before: the clock (\<open>time.Now()\<close> and SQL \<open>NOW()\<close>), the
  UUID generator, and whether a bolt transaction, a Postgres round trip or a Redis ping
  fails. An error returned by bolt (I/O error, closed database, refused key) leaves the
  bucket as it was, since the transaction is rolled back.
\<close>

record Env =
  time_Now :: "nat \<Rightarrow> time"
  uuid_NewString :: "nat \<Rightarrow> string"
  bolt_fails :: "nat \<Rightarrow> bool"
  pg_fails :: "nat \<Rightarrow> bool"
  redis_fails :: "nat \<Rightarrow> bool"

datatype level = DebugLevel | InfoLevel | WarnLevel | ErrorLevel

text \<open>
  Modelled from the spec: the schema of the \<open>users\<close> and \<open>tasks\<close> tables (the
  migrations are not among the sources). Each table holds at most one row per \<open>id\<close>
  (the primary key, which \<open>ON CONFLICT (id)\<close> in the user repository relies on), has
  no other constraint, and \<open>created_at\<close> and \<open>updated_at\<close> default to \<open>NOW()\<close>.

  The counters \<open>n_pg\<close> and \<open>n_bolt\<close> count the statements sent to Postgres and the
  bolt transactions begun, so they also tell how many repository or store calls were made.
\<close>

record World =
  n_now :: nat
  n_uuid :: nat
  n_bolt :: nat
  n_pg :: nat
  n_redis :: nat
  bucket :: "(string \<times> blob) list"
  users :: "string \<rightharpoonup> User"
  tasks :: "string \<rightharpoonup> Task"
  logs :: "(level \<times> string) list"

definition now :: "Env \<Rightarrow> World \<Rightarrow> time \<times> World" where
  "now E w = (time_Now E (n_now w), w\<lparr>n_now := Suc (n_now w)\<rparr>)"

definition NewString :: "Env \<Rightarrow> World \<Rightarrow> string \<times> World" where
  "NewString E w = (uuid_NewString E (n_uuid w), w\<lparr>n_uuid := Suc (n_uuid w)\<rparr>)"

definition log :: "level \<Rightarrow> string \<Rightarrow> World \<Rightarrow> World" where
  "log l msg w = w\<lparr>logs := logs w @ [(l, msg)]\<rparr>"

section \<open>The buffer store\<close>

text \<open>
  The bucket is a list of key/value pairs in ascending byte order of the keys, as the
  bolt cursor walks it. \<open>Put\<close> replaces the value of a key that is present.
\<close>

fun Put :: "string \<Rightarrow> blob \<Rightarrow> (string \<times> blob) list \<Rightarrow> (string \<times> blob) list" where
  "Put k v [] = [(k, v)]"
| "Put k v ((k', v') # rest) =
     (if k < k' then (k, v) # (k', v') # rest
      else if k = k' then (k, v) # rest
      else (k', v') # Put k v rest)"

definition Delete_key :: "string \<Rightarrow> (string \<times> blob) list \<Rightarrow> (string \<times> blob) list" where
  "Delete_key k b = filter (\<lambda>e. fst e \<noteq> k) b"

definition db_Update ::
  "Env \<Rightarrow> ((string \<times> blob) list \<Rightarrow> (string \<times> blob) list) \<Rightarrow> World \<Rightarrow> error option \<times> World" where
  "db_Update E f w =
     (let w1 = w\<lparr>n_bolt := Suc (n_bolt w)\<rparr>
      in if bolt_fails E (n_bolt w) then (Some ErrBolt, w1)
         else (None, w1\<lparr>bucket := f (bucket w)\<rparr>))"

definition db_View ::
  "Env \<Rightarrow> ((string \<times> blob) list \<Rightarrow> 'a) \<Rightarrow> World \<Rightarrow> (error + 'a) \<times> World" where
  "db_View E f w =
     (let w1 = w\<lparr>n_bolt := Suc (n_bolt w)\<rparr>
      in if bolt_fails E (n_bolt w) then (Inl ErrBolt, w1)
         else (Inr (f (bucket w)), w1))"

text \<open>\<open>Store\<close>: \<open>db\<close> tells whether the handle's \<open>db\<close> pointer is set. A nil
  \<open>*Store\<close> is \<open>None\<close>.\<close>

record Store =
  db :: bool

definition normalize_Item :: "Env \<Rightarrow> Item \<Rightarrow> World \<Rightarrow> Item \<times> World" where
  "normalize_Item E i w =
     (case (if ID i = [] then (case NewString E w of (u, w') \<Rightarrow> (i\<lparr>ID := u\<rparr>, w')) else (i, w)) of
        (i1, w1) \<Rightarrow>
          (case (if Priority i1 \<le> 0 \<or> Priority i1 > 5 then i1\<lparr>Priority := 3\<rparr> else i1) of
             i2 \<Rightarrow>
               (if IsZero (Timestamp i2)
                then (case now E w1 of (t, w2) \<Rightarrow> (i2\<lparr>Timestamp := t\<rparr>, w2))
                else (i2, w1))))"

definition Enqueue :: "Env \<Rightarrow> Store option \<Rightarrow> Item \<Rightarrow> World \<Rightarrow> error option \<times> World" where
  "Enqueue E s item w =
     (case s of
        None \<Rightarrow> (Some ErrDatabaseNotOpen, w)
      | Some st \<Rightarrow>
          if \<not> db st then (Some ErrDatabaseNotOpen, w)
          else (case normalize_Item E item w of
                  (item1, w1) \<Rightarrow>
                    (let key = buildKey item1; item2 = item1\<lparr>bucketKey := key\<rparr>
                     in case json_Marshal_Item item2 of
                          Inl err \<Rightarrow> (Some err, w1)
                        | Inr payload \<Rightarrow> db_Update E (Put (bucketKey item2) payload) w1)))"

fun GetBatch_loop :: "int \<Rightarrow> Item list \<Rightarrow> (string \<times> blob) list \<Rightarrow> Item list" where
  "GetBatch_loop limit items [] = items"
| "GetBatch_loop limit items ((k, v) # rest) =
     (if int (length items) < limit
      then (case json_Unmarshal_Item v of
              Inl err \<Rightarrow> GetBatch_loop limit items rest
            | Inr item \<Rightarrow> GetBatch_loop limit (items @ [item\<lparr>bucketKey := k\<rparr>]) rest)
      else items)"

definition GetBatch :: "Env \<Rightarrow> Store option \<Rightarrow> int \<Rightarrow> World \<Rightarrow> (error + Item list) \<times> World" where
  "GetBatch E s limit w =
     (case s of
        None \<Rightarrow> (Inl ErrDatabaseNotOpen, w)
      | Some st \<Rightarrow>
          if \<not> db st then (Inl ErrDatabaseNotOpen, w)
          else db_View E (GetBatch_loop (if limit \<le> 0 then 50 else limit) []) w)"

fun deleteByID_loop :: "string \<Rightarrow> (string \<times> blob) list \<Rightarrow> (string \<times> blob) list" where
  "deleteByID_loop i [] = []"
| "deleteByID_loop i ((k, v) # rest) =
     (case json_Unmarshal_Item v of
        Inl err \<Rightarrow> (k, v) # deleteByID_loop i rest
      | Inr item \<Rightarrow> if ID item = i then rest else (k, v) # deleteByID_loop i rest)"

definition deleteByID :: "Env \<Rightarrow> string \<Rightarrow> World \<Rightarrow> error option \<times> World" where
  "deleteByID E i w = (if i = [] then (None, w) else db_Update E (deleteByID_loop i) w)"

definition Remove :: "Env \<Rightarrow> Store option \<Rightarrow> Item \<Rightarrow> World \<Rightarrow> error option \<times> World" where
  "Remove E s item w =
     (case s of
        None \<Rightarrow> (Some ErrDatabaseNotOpen, w)
      | Some st \<Rightarrow>
          if \<not> db st then (Some ErrDatabaseNotOpen, w)
          else if length (bucketKey item) = 0 then deleteByID E (ID item) w
          else db_Update E (Delete_key (bucketKey item)) w)"

definition Requeue :: "Env \<Rightarrow> Store option \<Rightarrow> Item \<Rightarrow> World \<Rightarrow> error option \<times> World" where
  "Requeue E s item w =
     (case now E w of
        (t, w1) \<Rightarrow> Enqueue E s (item\<lparr>bucketKey := [], Timestamp := t\<rparr>) w1)"

definition Size :: "Env \<Rightarrow> Store option \<Rightarrow> World \<Rightarrow> (int \<times> error option) \<times> World" where
  "Size E s w =
     (case s of
        None \<Rightarrow> ((0, Some ErrDatabaseNotOpen), w)
      | Some st \<Rightarrow>
          if \<not> db st then ((0, Some ErrDatabaseNotOpen), w)
          else (case db_View E (\<lambda>b. int (length b)) w of
                  (Inl err, w1) \<Rightarrow> ((0, Some err), w1)
                | (Inr n, w1) \<Rightarrow> ((n, None), w1)))"

section \<open>The Postgres repositories\<close>

definition pg_query :: "Env \<Rightarrow> World \<Rightarrow> bool \<times> World" where
  "pg_query E w = (pg_fails E (n_pg w), w\<lparr>n_pg := Suc (n_pg w)\<rparr>)"

text \<open>
  \<open>userRepository.Upsert\<close>: \<open>INSERT ... ON CONFLICT (id) DO UPDATE\<close>. A nil pointer is
  \<open>None\<close>. The result carries the user as the call leaves it behind its pointer.
\<close>

definition Upsert :: "Env \<Rightarrow> User option \<Rightarrow> World \<Rightarrow> (error + User) \<times> World" where
  "Upsert E user w =
     (case user of
        None \<Rightarrow> (Inl ErrInvalidPayload, w)
      | Some u \<Rightarrow>
          (case pg_query E w of
             (failed, w1) \<Rightarrow>
               if failed then (Inl ErrPgUnavailable, w1)
               else (case now E w1 of
                       (t, w2) \<Rightarrow>
                         (let row = (case users w2 (uID u) of
                                       None \<Rightarrow> u\<lparr>uCreatedAt :=
                                                   (if IsZero (uCreatedAt u) then t else uCreatedAt u),
                                                 uUpdatedAt := t\<rparr>
                                     | Some old \<Rightarrow> old\<lparr>uEmail := uEmail u, uRole := uRole u,
                                                       uStatus := uStatus u,
                                                       uMetadata := uMetadata u,
                                                       uUpdatedAt := t\<rparr>)
                          in (Inr (u\<lparr>uCreatedAt := uCreatedAt row, uUpdatedAt := uUpdatedAt row\<rparr>),
                              w2\<lparr>users := (users w2)(uID u \<mapsto> row)\<rparr>)))))"

text \<open>\<open>taskRepository.Create\<close>: a plain \<open>INSERT\<close>.\<close>

definition Create :: "Env \<Rightarrow> Task option \<Rightarrow> World \<Rightarrow> (error + Task) \<times> World" where
  "Create E task w =
     (case task of
        None \<Rightarrow> (Inl ErrInvalidPayload, w)
      | Some t \<Rightarrow>
          (case (if tID t = [] then (case NewString E w of (u, w') \<Rightarrow> (t\<lparr>tID := u\<rparr>, w'))
                 else (t, w)) of
             (t1, w1) \<Rightarrow>
               (case pg_query E w1 of
                  (failed, w2) \<Rightarrow>
                    if failed then (Inl ErrPgUnavailable, w2)
                    else if tasks w2 (tID t1) \<noteq> None then (Inl ErrPgUniqueViolation, w2)
                    else (case now E w2 of
                            (n, w3) \<Rightarrow>
                              (let row = t1\<lparr>tCreatedAt := n, tUpdatedAt := n\<rparr>
                               in (Inr row, w3\<lparr>tasks := (tasks w3)(tID t1 \<mapsto> row)\<rparr>))))))"

text \<open>\<open>taskRepository.Update\<close>: \<open>UPDATE ... WHERE id = $1 RETURNING updated_at\<close>; no
  row comes back when the id is absent.\<close>

definition Update :: "Env \<Rightarrow> Task option \<Rightarrow> World \<Rightarrow> (error + Task) \<times> World" where
  "Update E task w =
     (case task of
        None \<Rightarrow> (Inl ErrInvalidPayload, w)
      | Some t \<Rightarrow>
          (case pg_query E w of
             (failed, w1) \<Rightarrow>
               if failed then (Inl ErrPgUnavailable, w1)
               else (case tasks w1 (tID t) of
                       None \<Rightarrow> (Inl ErrTaskNotFound, w1)
                     | Some old \<Rightarrow>
                         (case now E w1 of
                            (n, w2) \<Rightarrow>
                              (let row = old\<lparr>tTitle := tTitle t, tDescription := tDescription t,
                                             tStatus := tStatus t, tPriority := tPriority t,
                                             tDueDate := tDueDate t, tMetadata := tMetadata t,
                                             tUpdatedAt := n\<rparr>
                               in (Inr (t\<lparr>tUpdatedAt := n\<rparr>),
                                   w2\<lparr>tasks := (tasks w2)(tID t \<mapsto> row)\<rparr>))))))"

text \<open>\<open>taskRepository.Delete\<close>: no row affected is reported as \<open>ErrTaskNotFound\<close>.\<close>

definition Delete :: "Env \<Rightarrow> string \<Rightarrow> World \<Rightarrow> error option \<times> World" where
  "Delete E i w =
     (case pg_query E w of
        (failed, w1) \<Rightarrow>
          if failed then (Some ErrPgUnavailable, w1)
          else if tasks w1 i = None then (Some ErrTaskNotFound, w1)
          else (None, w1\<lparr>tasks := (tasks w1)(i := None)\<rparr>))"

definition err_of :: "(error + 'a) \<Rightarrow> error option" where
  "err_of r = (case r of Inl e \<Rightarrow> Some e | Inr x \<Rightarrow> None)"

section \<open>The health monitor\<close>

record Status =
  PostgreSQL :: bool
  Redis :: bool
  Buffer :: bool
  BufferSize :: int
  LastCheck :: time

text \<open>\<open>pg\<close>, \<open>redis\<close>: whether the client pointers are set; \<open>buffer\<close>: the store
  handle.\<close>

record Monitor =
  pg :: bool
  redis :: bool
  buffer :: "Store option"
  status :: Status

definition IsOnline :: "Monitor \<Rightarrow> bool" where
  "IsOnline m = (PostgreSQL (status m) \<and> Redis (status m))"

definition GetStatus :: "Monitor \<Rightarrow> Status" where
  "GetStatus m = status m"

definition checkPostgres :: "Env \<Rightarrow> Monitor \<Rightarrow> World \<Rightarrow> bool \<times> World" where
  "checkPostgres E m w =
     (if \<not> pg m then (False, w)
      else (case pg_query E w of (failed, w1) \<Rightarrow> (\<not> failed, w1)))"

definition checkRedis :: "Env \<Rightarrow> Monitor \<Rightarrow> World \<Rightarrow> bool \<times> World" where
  "checkRedis E m w =
     (if \<not> redis m then (False, w)
      else (\<not> redis_fails E (n_redis w), w\<lparr>n_redis := Suc (n_redis w)\<rparr>))"

definition checkBuffer :: "Env \<Rightarrow> Monitor \<Rightarrow> World \<Rightarrow> (bool \<times> int) \<times> World" where
  "checkBuffer E m w =
     (case buffer m of
        None \<Rightarrow> ((False, 0), w)
      | Some st \<Rightarrow>
          (case Size E (Some st) w of
             ((sz, Some err), w1) \<Rightarrow> ((False, sz), log WarnLevel ''buffer size check failed'' w1)
           | ((sz, None), w1) \<Rightarrow> ((True, sz), w1)))"

definition refresh :: "Env \<Rightarrow> Monitor \<Rightarrow> World \<Rightarrow> Monitor \<times> World" where
  "refresh E m w =
     (case checkBuffer E m w of
        ((bufferOK, bufferSize), w1) \<Rightarrow>
          (case checkPostgres E m w1 of
             (p, w2) \<Rightarrow>
               (case checkRedis E m w2 of
                  (r, w3) \<Rightarrow>
                    (case now E w3 of
                       (t, w4) \<Rightarrow>
                         (m\<lparr>status := \<lparr>PostgreSQL = p, Redis = r, Buffer = bufferOK,
                                         BufferSize = bufferSize, LastCheck = t\<rparr>\<rparr>, w4)))))"

section \<open>The buffer processor\<close>

record ProcessorConfig =
  Interval :: int
  BatchSize :: int
  MaxRetries :: int

text \<open>
  \<open>BufferProcessor\<close>: the store handle, the monitor (an interface value, nil is
  \<open>None\<close>) and the configuration. The repositories and the logger act on the world.
\<close>

record BufferProcessor =
  store :: "Store option"
  monitor :: "Monitor option"
  cfg :: ProcessorConfig

definition NewBufferProcessor ::
  "Store option \<Rightarrow> Monitor option \<Rightarrow> ProcessorConfig \<Rightarrow> BufferProcessor" where
  "NewBufferProcessor st mon c =
     (let c1 = (if Interval c \<le> 0 then c\<lparr>Interval := 30 * 1000000000\<rparr> else c);
          c2 = (if BatchSize c1 \<le> 0 then c1\<lparr>BatchSize := 50\<rparr> else c1);
          c3 = (if MaxRetries c2 \<le> 0 then c2\<lparr>MaxRetries := 3\<rparr> else c2)
      in \<lparr>store = st, monitor = mon, cfg = c3\<rparr>)"

definition processItem :: "Env \<Rightarrow> BufferProcessor \<Rightarrow> Item \<Rightarrow> World \<Rightarrow> error option \<times> World" where
  "processItem E bp item w =
     (if Entity item = EntityProfile then
        (case Unmarshal_User (Data item) of
           Inl err \<Rightarrow> (Some err, w)
         | Inr user \<Rightarrow> (case Upsert E (Some user) w of (r, w1) \<Rightarrow> (err_of r, w1)))
      else if Entity item = EntityTask then
        (case Unmarshal_Task (Data item) of
           Inl err \<Rightarrow> (Some err, w)
         | Inr task \<Rightarrow>
             if Operation item = OperationCreate then
               (case Create E (Some task) w of (r, w1) \<Rightarrow> (err_of r, w1))
             else if Operation item = OperationUpdate then
               (case Update E (Some task) w of (r, w1) \<Rightarrow> (err_of r, w1))
             else if Operation item = OperationDelete then Delete E (tID task) w
             else (Some (ErrUnsupportedOperation (Operation item)), w))
      else (Some (ErrUnsupportedEntity (Entity item)), w))"

text \<open>The body of the loop of \<open>Drain\<close>, for one item of the batch.\<close>

definition Drain_item :: "Env \<Rightarrow> BufferProcessor \<Rightarrow> Item \<Rightarrow> World \<Rightarrow> World" where
  "Drain_item E bp item w =
     (case processItem E bp item w of
        (Some err, w1) \<Rightarrow>
          (let w2 = log ErrorLevel ''failed to process buffer item'' w1;
               item1 = item\<lparr>Retries := int64 (Retries item + 1)\<rparr>
           in if Retries item1 \<ge> MaxRetries (cfg bp) then
                (let w3 = log WarnLevel ''dropping buffer item (max retries reached)'' w2
                 in snd (Remove E (store bp) item1 w3))
              else
                (case Remove E (store bp) item1 w2 of
                   (e1, w3) \<Rightarrow>
                     (let w4 = (if e1 \<noteq> None then log WarnLevel ''failed to remove buffer item'' w3
                                else w3)
                      in case Requeue E (store bp) item1 w4 of
                           (e2, w5) \<Rightarrow>
                             if e2 \<noteq> None then log ErrorLevel ''failed to requeue buffer item'' w5
                             else w5)))
      | (None, w1) \<Rightarrow>
          (case Remove E (store bp) item w1 of
             (e, w2) \<Rightarrow>
               if e \<noteq> None then log WarnLevel ''failed to purge processed buffer item'' w2
               else w2))"

fun Drain_loop :: "Env \<Rightarrow> BufferProcessor \<Rightarrow> Item list \<Rightarrow> World \<Rightarrow> World" where
  "Drain_loop E bp [] w = w"
| "Drain_loop E bp (item # items) w = Drain_loop E bp items (Drain_item E bp item w)"

definition Drain :: "Env \<Rightarrow> BufferProcessor option \<Rightarrow> World \<Rightarrow> error option \<times> World" where
  "Drain E b w =
     (case b of
        None \<Rightarrow> (None, w)
      | Some bp \<Rightarrow>
          if store bp = None then (None, w)
          else if monitor bp \<noteq> None \<and> \<not> IsOnline (the (monitor bp)) then
            (None, log DebugLevel ''skipping buffer drain (offline)'' w)
          else (case GetBatch E (store bp) (BatchSize (cfg bp)) w of
                  (Inl err, w1) \<Rightarrow> (Some err, w1)
                | (Inr items, w1) \<Rightarrow> (None, Drain_loop E bp items w1)))"

definition BufferOperation ::
  "Env \<Rightarrow> BufferProcessor option \<Rightarrow> Item \<Rightarrow> World \<Rightarrow> error option \<times> World" where
  "BufferOperation E b item w =
     (case b of
        None \<Rightarrow> (Some ErrNotConfigured, w)
      | Some bp \<Rightarrow>
          if store bp = None then (Some ErrNotConfigured, w)
          else if monitor bp = None \<or> IsOnline (the (monitor bp)) then
            (case processItem E bp item w of
               (None, w1) \<Rightarrow> (None, w1)
             | (Some err, w1) \<Rightarrow>
                 Enqueue E (store bp) item (log WarnLevel ''immediate processing failed, buffering'' w1))
          else Enqueue E (store bp) item w)"

section \<open>The bridge and the task use case\<close>

record BufferBridge =
  processor :: "BufferProcessor option"

definition BufferProfile ::
  "Env \<Rightarrow> BufferBridge \<Rightarrow> string \<Rightarrow> User option \<Rightarrow> World \<Rightarrow> error option \<times> World" where
  "BufferProfile E b operation user w =
     (if processor b = None \<or> user = None then (Some ErrInvalidPayload, w)
      else (case Marshal_User (the user) of
              Inl err \<Rightarrow> (Some err, w)
            | Inr payload \<Rightarrow>
                BufferOperation E (processor b)
                  \<lparr>ID = [], UserID = uID (the user), Entity = EntityProfile,
                   Operation = operation, Data = payload, Priority = 3, Retries = 0,
                   Timestamp = zero_time, bucketKey = []\<rparr> w))"

definition BufferTask ::
  "Env \<Rightarrow> BufferBridge \<Rightarrow> string \<Rightarrow> Task option \<Rightarrow> World \<Rightarrow> error option \<times> World" where
  "BufferTask E b operation task w =
     (if processor b = None \<or> task = None then (Some ErrInvalidPayload, w)
      else (case Marshal_Task (the task) of
              Inl err \<Rightarrow> (Some err, w)
            | Inr payload \<Rightarrow>
                BufferOperation E (processor b)
                  \<lparr>ID = tID (the task), UserID = tUserID (the task), Entity = EntityTask,
                   Operation = operation, Data = payload, Priority = 4, Retries = 0,
                   Timestamp = zero_time, bucketKey = []\<rparr> w))"

text \<open>The task use case: \<open>uc_buffer\<close> is its \<open>OperationBuffer\<close> (nil is \<open>None\<close>).\<close>

record UseCase =
  uc_buffer :: "BufferBridge option"

definition shouldBuffer ::
  "Env \<Rightarrow> UseCase \<Rightarrow> string \<Rightarrow> Task \<Rightarrow> World \<Rightarrow> bool \<times> World" where
  "shouldBuffer E uc operation task w =
     (case uc_buffer uc of
        None \<Rightarrow> (False, w)
      | Some b \<Rightarrow>
          (case BufferTask E b operation (Some task) w of
             (Some err, w1) \<Rightarrow> (False, log ErrorLevel ''failed to buffer task operation'' w1)
           | (None, w1) \<Rightarrow> (True, log WarnLevel ''task operation buffered'' w1)))"

definition DeleteTask :: "Env \<Rightarrow> UseCase \<Rightarrow> string \<Rightarrow> World \<Rightarrow> error option \<times> World" where
  "DeleteTask E uc i w =
     (case Delete E i w of
        (Some err, w1) \<Rightarrow>
          if err = ErrTaskNotFound then (Some err, w1)
          else (case shouldBuffer E uc OperationDelete (zero_Task\<lparr>tID := i\<rparr>) w1 of
                  (True, w2) \<Rightarrow> (None, w2)
                | (False, w2) \<Rightarrow> (Some err, w2))
      | (None, w1) \<Rightarrow> (None, w1))"

section \<open>The health handler\<close>

record buffer_json =
  buf_online :: bool
  buf_size :: int

record services_json =
  postgresql :: bool
  redis_up :: bool
  buffer_info :: buffer_json

record payload_json =
  timestamp :: time
  services :: services_json

record Envelope =
  eStatus :: string
  eCode :: string
  eData :: "payload_json option"
  eError :: "string option"
  eMeta :: "payload_json option"

record Response =
  StatusCode :: nat
  ContentType :: string
  Body :: Envelope

definition NewSuccess :: "payload_json option \<Rightarrow> payload_json option \<Rightarrow> Envelope" where
  "NewSuccess d meta = \<lparr>eStatus = ''success'', eCode = [], eData = d, eError = None, eMeta = meta\<rparr>"

definition NewError :: "string \<Rightarrow> string option \<Rightarrow> payload_json option \<Rightarrow> Envelope" where
  "NewError code err meta =
     \<lparr>eStatus = ''error'', eCode = code, eData = None, eError = err, eMeta = meta\<rparr>"

definition respondJSON :: "nat \<Rightarrow> Envelope \<Rightarrow> Response" where
  "respondJSON st payload = \<lparr>StatusCode = st, ContentType = ''application/json'', Body = payload\<rparr>"

definition respondSuccess :: "nat \<Rightarrow> payload_json \<Rightarrow> Response" where
  "respondSuccess st d = respondJSON st (NewSuccess (Some d) None)"

record HealthHandler =
  h_monitor :: Monitor

definition Check :: "Env \<Rightarrow> HealthHandler \<Rightarrow> World \<Rightarrow> Response \<times> World" where
  "Check E h w =
     (let st = GetStatus (h_monitor h)
      in case now E w of
           (t, w1) \<Rightarrow>
             (let payload = \<lparr>timestamp = UTC t,
                             services = \<lparr>postgresql = PostgreSQL st, redis_up = Redis st,
                                         buffer_info = \<lparr>buf_online = Buffer st, buf_size = BufferSize st\<rparr>\<rparr>\<rparr>
              in if PostgreSQL st \<and> Redis st then (respondSuccess 200 payload, w1)
                 else (respondJSON 503
                         (NewError ''DEGRADED'' (Some ''dependencies unhealthy'') (Some payload)),
                       w1)))"

definition services_of :: "Status \<Rightarrow> services_json" where
  "services_of st = \<lparr>postgresql = PostgreSQL st, redis_up = Redis st,
     buffer_info = \<lparr>buf_online = Buffer st, buf_size = BufferSize st\<rparr>\<rparr>"

section \<open>Concrete inputs\<close>

text \<open>
  A world with an empty bucket and empty tables, an environment in which nothing fails
  and the clock reads 1000, 1001, ... (and stays at 2000 after a hundred readings), and
  a processor as \<open>main\<close> builds it, without a monitor.
\<close>

definition empty_World :: World where
  "empty_World = \<lparr>n_now = 0, n_uuid = 0, n_bolt = 0, n_pg = 0, n_redis = 0, bucket = [],
     users = Map.empty, tasks = Map.empty, logs = []\<rparr>"

definition ok_Env :: Env where
  "ok_Env = \<lparr>time_Now = (\<lambda>n. utc (if n < 100 then 1000 + int n else 2000)),
     uuid_NewString = (\<lambda>n. if n = 0 then ''uuid-0'' else ''uuid-n''),
     bolt_fails = (\<lambda>n. False), pg_fails = (\<lambda>n. False), redis_fails = (\<lambda>n. False)\<rparr>"

definition open_Store :: "Store option" where
  "open_Store = Some \<lparr>db = True\<rparr>"

definition default_Processor :: BufferProcessor where
  "default_Processor =
     NewBufferProcessor open_Store None \<lparr>Interval = 0, BatchSize = 0, MaxRetries = 0\<rparr>"

definition degraded_Handler :: HealthHandler where
  "degraded_Handler = \<lparr>h_monitor = \<lparr>pg = True, redis = True, buffer = open_Store,
     status = \<lparr>PostgreSQL = True, Redis = False, Buffer = True, BufferSize = 2,
       LastCheck = utc 900\<rparr>\<rparr>\<rparr>"

text \<open>A health handler whose monitor's last snapshot has both primary stores up and the
  buffer store down.\<close>

definition buffer_down_Handler :: HealthHandler where
  "buffer_down_Handler = \<lparr>h_monitor = \<lparr>pg = True, redis = True, buffer = None,
     status = \<lparr>PostgreSQL = True, Redis = True, Buffer = False, BufferSize = 0,
       LastCheck = utc 900\<rparr>\<rparr>\<rparr>"

text \<open>Three items: two task records stamped 500 and a profile record without id or
  timestamp (both are filled in by \<open>normalize_Item\<close>).\<close>

definition task_Item :: "string \<Rightarrow> string \<Rightarrow> Item" where
  "task_Item i operation =
     \<lparr>ID = i, UserID = ''u1'', Entity = EntityTask, Operation = operation,
      Data = RawJSON (Some (User_of_Task_json (zero_Task\<lparr>tID := i\<rparr>))) (Some (zero_Task\<lparr>tID := i\<rparr>)),
      Priority = 4, Retries = 0, Timestamp = utc 500, bucketKey = []\<rparr>"

definition profile_Item :: Item where
  "profile_Item =
     \<lparr>ID = [], UserID = ''u1'', Entity = EntityProfile, Operation = OperationUpdate,
      Data = RawJSON (Some (zero_User\<lparr>uID := ''u1''\<rparr>))
               (Some (Task_of_User_json (zero_User\<lparr>uID := ''u1''\<rparr>))),
      Priority = 3, Retries = 0, Timestamp = zero_time, bucketKey = []\<rparr>"

definition three_Items :: "Item list" where
  "three_Items = [task_Item ''t1'' OperationCreate, profile_Item, task_Item ''t0'' OperationCreate]"

text \<open>Two task records whose ids are the byte \<open>0xFF\<close>, which is not valid UTF-8, and
  the four bytes of U+1F600.\<close>

definition raw_id_Items :: "Item list" where
  "raw_id_Items = [task_Item [CHR 0xFF] OperationDelete,
                   task_Item [CHR 0xF0, CHR 0x9F, CHR 0x98, CHR 0x80] OperationDelete]"

text \<open>A monitor whose last snapshot has PostgreSQL down, and a processor that uses it.\<close>

definition offline_Monitor :: Monitor where
  "offline_Monitor = \<lparr>pg = True, redis = True, buffer = open_Store,
     status = \<lparr>PostgreSQL = False, Redis = True, Buffer = True, BufferSize = 0,
       LastCheck = utc 900\<rparr>\<rparr>"

definition offline_Processor :: BufferProcessor where
  "offline_Processor = default_Processor\<lparr>monitor := Some offline_Monitor\<rparr>"



definition requeue_fault_Env :: Env where
  "requeue_fault_Env = ok_Env\<lparr>bolt_fails := (\<lambda>n. n = 3), pg_fails := (\<lambda>n. True)\<rparr>"


section \<open>Notions used in the statements\<close>

text \<open>
  An entry of the bucket as \<open>Enqueue\<close> writes it: the value decodes to an item, the key
  is the item's key, the priority is normalized and the timestamp's \<open>UnixNano\<close> is not
  negative. A bucket is \<open>keyed\<close> when its keys ascend strictly and all its entries are
  of that kind.
\<close>

definition normal_item :: "Item \<Rightarrow> bool" where
  "normal_item it = (1 \<le> Priority it \<and> Priority it \<le> 5 \<and> 0 \<le> UnixNano (Timestamp it))"

definition normal_key_entry :: "string \<times> blob \<Rightarrow> bool" where
  "normal_key_entry e =
     (case snd e of Junk s \<Rightarrow> False | Doc it \<Rightarrow> fst e = buildKey it \<and> normal_item it)"

definition keyed :: "(string \<times> blob) list \<Rightarrow> bool" where
  "keyed b = (sorted_wrt (<) (map fst b) \<and> list_all normal_key_entry b)"

text \<open>
  A string is valid UTF-8 when \<open>json.Marshal\<close> writes it as it is (an offending byte
  would be written as three). A time has a whole-minute offset when RFC 3339 prints its
  offset in full.
\<close>

definition valid_utf8 :: "string \<Rightarrow> bool" where
  "valid_utf8 s = (json_string s = s)"

definition whole_minutes :: "time \<Rightarrow> bool" where
  "whole_minutes t = (zone t mod 60 = 0)"

text \<open>Enqueueing a list of items, one call after the other, whatever each call returns.\<close>

fun Enqueue_all :: "Env \<Rightarrow> Store option \<Rightarrow> Item list \<Rightarrow> World \<Rightarrow> World" where
  "Enqueue_all E s [] w = w"
| "Enqueue_all E s (i # rest) w = Enqueue_all E s rest (snd (Enqueue E s i w))"

definition batch_item_ok :: "Item \<Rightarrow> bool" where
  "batch_item_ok a = (bucketKey a = buildKey a \<and> normal_item a)"




text \<open>A sequence of calls of the bridge, each with its operation and its object.\<close>

datatype bridge_call = ProfileCall string User | TaskCall string Task

fun run_bridge :: "Env \<Rightarrow> BufferBridge \<Rightarrow> bridge_call list \<Rightarrow> World \<Rightarrow> World" where
  "run_bridge E b [] w = w"
| "run_bridge E b (ProfileCall operation u # rest) w =
     run_bridge E b rest (snd (BufferProfile E b operation (Some u) w))"
| "run_bridge E b (TaskCall operation t # rest) w =
     run_bridge E b rest (snd (BufferTask E b operation (Some t) w))"

text \<open>
  The world after a task was buffered (clock reading 1000) and then a profile (clock
  reading 1001), both through an offline processor, and the world after one drain of it
  by the default processor.
\<close>

definition buffered_World :: World where
  "buffered_World =
     run_bridge ok_Env \<lparr>processor = Some offline_Processor\<rparr>
       [TaskCall OperationCreate (zero_Task\<lparr>tID := ''t1''\<rparr>),
        ProfileCall OperationUpdate (zero_User\<lparr>uID := ''u1''\<rparr>)] empty_World"


text \<open>A world whose bucket holds one task record, stamped 500, and that record as a
  batch hands it out, with its handle.\<close>

definition one_World :: World where
  "one_World = Enqueue_all ok_Env open_Store [task_Item ''t1'' OperationCreate] empty_World"

definition stored_Item :: Item where
  "stored_Item = (task_Item ''t1'' OperationCreate)\<lparr>bucketKey := ''4_00000000000000000500_t1''\<rparr>"

text \<open>
  The item as the drain loop requeues it after a failed apply, when the world before the
  calls of \<open>Remove\<close> and \<open>Requeue\<close> is \<open>w\<close>: retries incremented, handle cleared,
  timestamp read from the clock, then normalized by \<open>Enqueue\<close>.
\<close>

definition requeue_form :: "Env \<Rightarrow> Item \<Rightarrow> World \<Rightarrow> Item" where
  "requeue_form E item w =
     fst (normalize_Item E
            (item\<lparr>Retries := int64 (Retries item + 1), bucketKey := [],
                  Timestamp := time_Now E (n_now w)\<rparr>)
            (snd (now E w)))"



text \<open>A world with an empty \<open>tasks\<close> table whose bucket holds one record that deletes
  task \<open>t1\<close>, and a task use case over the default processor.\<close>

definition delete_World :: World where
  "delete_World = Enqueue_all ok_Env open_Store [task_Item ''t1'' OperationDelete] empty_World"

definition default_UseCase :: UseCase where
  "default_UseCase = \<lparr>uc_buffer = Some \<lparr>processor = Some default_Processor\<rparr>\<rparr>"

text \<open>A monitor whose last snapshot has both primary stores up.\<close>

definition online_Monitor :: Monitor where
  "online_Monitor = \<lparr>pg = True, redis = True, buffer = open_Store,
     status = \<lparr>PostgreSQL = True, Redis = True, Buffer = True, BufferSize = 0,
       LastCheck = utc 900\<rparr>\<rparr>"

text \<open>The world after the task record \<open>t1\<close> was applied once to empty tables.\<close>

definition created_World :: World where
  "created_World =
     snd (processItem ok_Env default_Processor (task_Item ''t1'' OperationCreate) empty_World)"



text \<open>
  What is left of the retry budget \<open>M\<close> for a stored value: \<open>M\<close> minus the retry count
  of the record it decodes to, and nothing for a value that does not decode (\<open>GetBatch\<close>
  skips it). The budget of a bucket is the sum over its entries. In a \<open>retry_bucket\<close>
  every key is non-empty and every record has a retry count from 0 up to, but not
  including, \<open>M\<close>.
\<close>

definition remaining :: "int \<Rightarrow> blob \<Rightarrow> nat" where
  "remaining M v = (case v of Junk s \<Rightarrow> 0 | Doc it \<Rightarrow> nat (M - Retries it))"

definition budget :: "int \<Rightarrow> (string \<times> blob) list \<Rightarrow> nat" where
  "budget M b = sum_list (map (\<lambda>e. remaining M (snd e)) b)"




section \<open>Byte order of keys and numeric order\<close>


lemma append_less_same_length:
  "length u = length v \<Longrightarrow> (u @ xs < v @ ys) = (u < v \<or> u = v \<and> xs < ys)"
  by (induction u v rule: list_induct2) auto

lemma length_digitsN [simp]: "length (digitsN k n) = k"
  by (induction k arbitrary: n) auto

lemma digit_char_0: "digit_char 0 = CHR ''0''"
  unfolding digit_char_def by (simp add: char_of_def bit_iff_odd)

lemma digitsN_zero: "digitsN k 0 = replicate k (CHR ''0'')"
  by (induction k) (auto simp: digit_char_0 replicate_append_same)

lemma digit_char_less: "a < 10 \<Longrightarrow> b < 10 \<Longrightarrow> (digit_char a < digit_char b) = (a < b)"
  by (simp add: digit_char_def less_char_def)

lemma digit_char_eq: "a < 10 \<Longrightarrow> b < 10 \<Longrightarrow> (digit_char a = digit_char b) = (a = b)"
  using digit_char_less[of a b] digit_char_less[of b a] by (metis linorder_neqE_nat order_less_irrefl)

lemma div_mod_10_eq: "((a::nat) = b) = (a div 10 = b div 10 \<and> a mod 10 = b mod 10)"
  by (metis div_mult_mod_eq)
lemma div_mod_10_less: "((a::nat) < b) = (a div 10 < b div 10 \<or> a div 10 = b div 10 \<and> a mod 10 < b mod 10)"
proof -
  have a: "a = 10 * (a div 10) + a mod 10" and b: "b = 10 * (b div 10) + b mod 10" by simp_all
  have ra: "a mod 10 < 10" and rb: "b mod 10 < 10" by simp_all
  show ?thesis
  proof (cases "a div 10 < b div 10")
    case True
    then have "10 * (a div 10) + 10 \<le> 10 * (b div 10)" by simp
    with a b ra have "a < b" by linarith
    with True show ?thesis by simp
  next
    case False
    show ?thesis
    proof (cases "a div 10 = b div 10")
      case True
      then have "(a < b) = (a mod 10 < b mod 10)" using a b by (metis nat_add_left_cancel_less)
      with True show ?thesis by simp
    next
      case F2: False
      with False have "b div 10 < a div 10" by simp
      then have "10 * (b div 10) + 10 \<le> 10 * (a div 10)" by simp
      with a b rb have "b < a" by linarith
      with False F2 show ?thesis by simp
    qed
  qed
qed

lemma digitsN_less_eq:
  "a < 10 ^ k \<Longrightarrow> b < 10 ^ k \<Longrightarrow>
     (digitsN k a < digitsN k b) = (a < b) \<and> (digitsN k a = digitsN k b) = (a = b)"
proof (induction k arbitrary: a b)
  case 0
  then show ?case by simp
next
  case (Suc k)
  have qa: "a div 10 < 10 ^ k" and qb: "b div 10 < 10 ^ k"
    using Suc.prems by (simp_all add: less_mult_imp_div_less mult.commute)
  note ih = Suc.IH[OF qa qb]
  have ra: "a mod 10 < 10" and rb: "b mod 10 < 10" by simp_all
  note lt = div_mod_10_less[of a b] and eq = div_mod_10_eq[of a b]
  show ?case
    using ih digit_char_less[OF ra rb] digit_char_eq[OF ra rb] lt eq
    by (simp add: append_less_same_length)
qed

lemma pad0_snoc: "pad0 (Suc k) (s @ [c]) = pad0 k s @ [c]"
  by (simp add: pad0_def)

lemma pad0_dec_nat: "n < 10 ^ Suc k \<Longrightarrow> pad0 (Suc k) (dec_nat n) = digitsN (Suc k) n"
proof (induction k arbitrary: n)
  case 0
  then show ?case by (simp add: dec_nat.simps[of n] pad0_def)
next
  case (Suc k)
  show ?case
  proof (cases "n < 10")
    case True
    then show ?thesis
      by (simp add: dec_nat.simps[of n] pad0_def digitsN_zero digit_char_0 replicate_append_same)
  next
    case False
    have q: "n div 10 < 10 ^ Suc k"
      using Suc.prems by (simp add: less_mult_imp_div_less mult.commute)
    show ?thesis
      using False Suc.IH[OF q] by (simp add: dec_nat.simps[of n] pad0_snoc)
  qed
qed

lemma int64_range: "- (2 ^ 63) \<le> int64 i \<and> int64 i < 2 ^ 63"
proof -
  have "0 \<le> (i + 2 ^ 63) mod (2 ^ 64 :: int)" and "(i + 2 ^ 63) mod (2 ^ 64 :: int) < 2 ^ 64"
    by simp_all
  then show ?thesis unfolding int64_def by simp
qed

lemma UnixNano_bound: "0 \<le> UnixNano t \<Longrightarrow> nat (UnixNano t) < 10 ^ 20"
proof -
  assume a: "0 \<le> UnixNano t"
  have "UnixNano t < 2 ^ 63" using int64_range[of "instant t"] by (simp add: UnixNano_def)
  also have "(2::int) ^ 63 < 10 ^ 20" by simp
  finally have "UnixNano t < 10 ^ 20" .
  then have "nat (UnixNano t) < nat (10 ^ 20)" using a by (simp only: nat_less_eq_zless)
  then show ?thesis by simp
qed

lemma fmt_d_digit: "0 \<le> p \<Longrightarrow> p < 10 \<Longrightarrow> fmt_d p = [digit_char (nat p)]"
proof -
  assume "0 \<le> p" "p < 10"
  then have "nat p < 10" by linarith
  with \<open>0 \<le> p\<close> show ?thesis by (simp add: fmt_d_def dec_nat.simps[of "nat p"])
qed

lemma fmt_020d_nonneg:
  assumes "0 \<le> UnixNano t"
  shows "fmt_020d (UnixNano t) = digitsN 20 (nat (UnixNano t))"
proof -
  have "nat (UnixNano t) < 10 ^ Suc 19" using UnixNano_bound[OF assms] by simp
  from pad0_dec_nat[OF this] assms show ?thesis by (simp add: fmt_020d_def)
qed

lemma key_shape_less:
  "length A = length B \<Longrightarrow>
     ([c] @ ''_'' @ A @ ''_'' @ x < [d] @ ''_'' @ B @ ''_'' @ y)
       = (c < d \<or> c = d \<and> (A < B \<or> A = B \<and> x < y))"
  by (simp add: append_less_same_length)

lemma lex3_int: "(p < q \<or> p = q \<and> (s < t \<or> s = t \<and> x < y))
    = ((p :: int, s :: int, x :: string) < (q, t, y))"
  by (auto simp add: less_prod_simp)

lemma buildKey_less:
  assumes "1 \<le> Priority a" "Priority a \<le> 5" "1 \<le> Priority b" "Priority b \<le> 5"
    and ta: "0 \<le> UnixNano (Timestamp a)" and tb: "0 \<le> UnixNano (Timestamp b)"
  shows "(buildKey a < buildKey b) = (order_tuple a < order_tuple b)"
proof -
  define A where "A = digitsN 20 (nat (UnixNano (Timestamp a)))"
  define B where "B = digitsN 20 (nat (UnixNano (Timestamp b)))"
  define c where "c = digit_char (nat (Priority a))"
  define d where "d = digit_char (nat (Priority b))"
  have pa: "fmt_d (Priority a) = [c]" and pb: "fmt_d (Priority b) = [d]"
    using assms by (simp_all add: fmt_d_digit c_def d_def)
  have na: "nat (Priority a) < 10" and nb: "nat (Priority b) < 10"
    using assms by linarith+
  have dl: "(c < d) = (Priority a < Priority b)"
    using digit_char_less[OF na nb] assms(1,3) unfolding c_def d_def by linarith
  have de: "(c = d) = (Priority a = Priority b)"
    using digit_char_eq[OF na nb] assms(1,3) unfolding c_def d_def by linarith
  have bnd: "nat (UnixNano (Timestamp a)) < 10 ^ 20" "nat (UnixNano (Timestamp b)) < 10 ^ 20"
    using UnixNano_bound[OF ta] UnixNano_bound[OF tb] .
  have tl: "(A < B) = (UnixNano (Timestamp a) < UnixNano (Timestamp b))"
    using digitsN_less_eq[OF bnd] ta tb unfolding A_def B_def by linarith
  have te: "(A = B) = (UnixNano (Timestamp a) = UnixNano (Timestamp b))"
    using digitsN_less_eq[OF bnd] ta tb unfolding A_def B_def by linarith
  have len: "length A = length B" by (simp add: A_def B_def)
  have ka: "buildKey a = [c] @ ''_'' @ A @ ''_'' @ ID a"
    unfolding buildKey_def pa fmt_020d_nonneg[OF ta] A_def ..
  have kb: "buildKey b = [d] @ ''_'' @ B @ ''_'' @ ID b"
    unfolding buildKey_def pb fmt_020d_nonneg[OF tb] B_def ..
  show ?thesis
    unfolding ka kb key_shape_less[OF len] dl de tl te order_tuple_def
    by (rule lex3_int)
qed

section \<open>The health endpoint\<close>

text \<open>
  Claim C9 (amended). For every health snapshot, \<open>GET /health\<close> answers 200 exactly
  when both primary stores (PostgreSQL and Redis) are up in the snapshot, with the
  services payload (postgresql, redis, buffer online and size) as data; otherwise, that
  is when PostgreSQL or Redis is down, it answers 503 with status \<open>error\<close>, code
  \<open>DEGRADED\<close> and the same services payload. The state of the buffer store is
  reported in the payload but does not enter the status code: with another value of
  \<open>Buffer\<close> and \<open>BufferSize\<close> in the snapshot the code is the same. The handler only
  reads the monitor (through \<open>GetStatus\<close>) and leaves the bucket, the tables, the log
  and the counts of store, Postgres and Redis calls as they were.
\<close>

theorem Check_health_status:
  fixes E :: Env and h :: HealthHandler and w :: World
  defines "st \<equiv> GetStatus (h_monitor h)"
  defines "r \<equiv> fst (Check E h w)"
  defines "w' \<equiv> snd (Check E h w)"
  shows "(StatusCode r = 200) = (PostgreSQL st \<and> Redis st)
       \<and> (if PostgreSQL st \<and> Redis st
          then eStatus (Body r) = ''success''
             \<and> map_option services (eData (Body r)) = Some (services_of st)
          else StatusCode r = 503 \<and> eStatus (Body r) = ''error''
             \<and> eCode (Body r) = ''DEGRADED''
             \<and> map_option services (eMeta (Body r)) = Some (services_of st))
       \<and> StatusCode (fst (Check E \<lparr>h_monitor = (h_monitor h)
              \<lparr>status := st\<lparr>Buffer := b, BufferSize := n\<rparr>\<rparr>\<rparr> w)) = StatusCode r
       \<and> bucket w' = bucket w \<and> users w' = users w \<and> tasks w' = tasks w
       \<and> n_bolt w' = n_bolt w \<and> n_pg w' = n_pg w \<and> n_redis w' = n_redis w
       \<and> logs w' = logs w"
  unfolding st_def r_def w'_def
  by (simp add: Check_def now_def respondSuccess_def respondJSON_def NewSuccess_def
      NewError_def services_of_def GetStatus_def Let_def)

theorem Check_health_status_witness:
  "StatusCode (fst (Check ok_Env degraded_Handler empty_World)) = 503
   \<and> eCode (Body (fst (Check ok_Env degraded_Handler empty_World))) = ''DEGRADED''
   \<and> map_option services (eMeta (Body (fst (Check ok_Env degraded_Handler empty_World))))
       = Some \<lparr>postgresql = True, redis_up = False,
               buffer_info = \<lparr>buf_online = True, buf_size = 2\<rparr>\<rparr>"
  using Check_health_status [where E = ok_Env and h = degraded_Handler and w = empty_World]
  by (simp add: degraded_Handler_def GetStatus_def services_of_def)

text \<open>
  Claim C9 as worded does not hold for every reported store: with PostgreSQL and Redis
  up and the buffer store down in the snapshot, the payload reports the buffer as not
  online and the answer is 200 with status \<open>success\<close>, not 503.
\<close>

theorem Check_buffer_down_counterexample:
  "PostgreSQL (GetStatus (h_monitor buffer_down_Handler))
   \<and> Redis (GetStatus (h_monitor buffer_down_Handler))
   \<and> \<not> Buffer (GetStatus (h_monitor buffer_down_Handler))
   \<and> StatusCode (fst (Check ok_Env buffer_down_Handler empty_World)) = 200
   \<and> eStatus (Body (fst (Check ok_Env buffer_down_Handler empty_World))) = ''success''
   \<and> map_option services (eData (Body (fst (Check ok_Env buffer_down_Handler empty_World))))
       = Some \<lparr>postgresql = True, redis_up = True,
               buffer_info = \<lparr>buf_online = False, buf_size = 0\<rparr>\<rparr>"
  by code_simp

section \<open>Order of iteration\<close>

lemma Put_fst_set: "fst ` set (Put k v b) = insert k (fst ` set b)"
  by (induction b) (auto split: if_splits simp: rev_image_eqI)

lemma Put_set: "set (Put k v b) \<subseteq> insert (k, v) (set b)"
  by (induction b) (auto split: if_splits)

lemma Put_sorted:
  "sorted_wrt (<) (map fst b) \<Longrightarrow> sorted_wrt (<) (map fst (Put k v b))"
proof (induction b)
  case Nil
  then show ?case by simp
next
  case (Cons e b)
  obtain k' v' where e: "e = (k', v')" by (cases e)
  show ?case
  proof (cases "k < k'")
    case True
    then show ?thesis using Cons.prems e by (auto intro: less_trans)
  next
    case False
    show ?thesis
    proof (cases "k = k'")
      case True
      then show ?thesis using Cons.prems e by auto
    next
      case F: False
      with False have "k' < k" by simp
      moreover have "sorted_wrt (<) (map fst (Put k v b))" using Cons by simp
      moreover have "\<forall>x \<in> fst ` set (Put k v b). k' < x"
        using Cons.prems e \<open>k' < k\<close> by (auto simp: Put_fst_set)
      ultimately show ?thesis using e False F by auto
    qed
  qed
qed

lemma keyed_Put: "keyed b \<Longrightarrow> normal_key_entry (k, v) \<Longrightarrow> keyed (Put k v b)"
  unfolding keyed_def list_all_iff using Put_set[of k v b] Put_sorted[of b k v] by auto

lemma keyed_Delete_key: "keyed b \<Longrightarrow> keyed (Delete_key k b)"
  unfolding keyed_def list_all_iff Delete_key_def
  by (auto simp: sorted_wrt_map intro: sorted_wrt_filter)

lemma keyed_Nil: "keyed []"
  by (simp add: keyed_def)

lemma buildKey_cong:
  "Priority a = Priority b \<Longrightarrow> Timestamp a = Timestamp b \<Longrightarrow> ID a = ID b
     \<Longrightarrow> buildKey a = buildKey b"
  by (simp add: buildKey_def)

lemma normalize_bucket: "bucket (snd (normalize_Item E i w)) = bucket w"
  by (simp add: normalize_Item_def NewString_def now_def Let_def split: prod.splits)

lemma normalize_Priority:
  "1 \<le> Priority (fst (normalize_Item E i w)) \<and> Priority (fst (normalize_Item E i w)) \<le> 5"
  by (simp add: normalize_Item_def NewString_def now_def Let_def split: prod.splits)

lemma normalize_Timestamp:
  "Timestamp (fst (normalize_Item E i w)) =
     (if IsZero (Timestamp i) then time_Now E (n_now w) else Timestamp i)"
  by (simp add: normalize_Item_def NewString_def now_def Let_def split: prod.splits)

lemma normalize_normal:
  assumes "\<And>n. 0 \<le> UnixNano (time_Now E n)"
    and "IsZero (Timestamp i) \<or> 0 \<le> UnixNano (Timestamp i)"
  shows "normal_item (fst (normalize_Item E i w))"
  using assms normalize_Priority[of E i w]
  by (auto simp: normal_item_def normalize_Timestamp)

lemma normalize_ID:
  "ID (fst (normalize_Item E i w)) = (if ID i = [] then uuid_NewString E (n_uuid w) else ID i)"
  by (simp add: normalize_Item_def NewString_def now_def Let_def split: prod.splits)

lemma zone_printed_exact: "off mod 60 = 0 \<Longrightarrow> zone_printed off = off"
proof -
  assume "off mod 60 = 0"
  then have "60 dvd off" by (simp add: dvd_eq_mod_eq_0)
  then have "60 dvd \<bar>off\<bar>" by (simp only: dvd_abs_iff)
  then have "60 * (\<bar>off\<bar> div 60) = \<bar>off\<bar>" by simp
  then have "zone_printed off = sgn off * \<bar>off\<bar>"
    unfolding zone_printed_def by (simp only: mult.left_commute[of 60])
  then show ?thesis by (simp add: sgn_mult_abs)
qed

lemma json_time_exact: "whole_minutes t \<Longrightarrow> json_time t = t"
  by (simp add: whole_minutes_def json_time_def zone_printed_exact)

lemma normalize_exact:
  assumes "\<And>n. valid_utf8 (uuid_NewString E n)" and "\<And>n. whole_minutes (time_Now E n)"
    and "valid_utf8 (ID i)" and "whole_minutes (Timestamp i)"
  shows "valid_utf8 (ID (fst (normalize_Item E i w)))
       \<and> whole_minutes (Timestamp (fst (normalize_Item E i w)))"
  using assms by (simp add: normalize_ID normalize_Timestamp)

lemma Enqueue_keyed:
  assumes k: "keyed (bucket w)"
    and clock: "\<And>n. 0 \<le> UnixNano (time_Now E n)"
    and uuid: "\<And>n. valid_utf8 (uuid_NewString E n)"
    and zones: "\<And>n. whole_minutes (time_Now E n)"
    and ts: "IsZero (Timestamp i) \<or> 0 \<le> UnixNano (Timestamp i)"
    and ex: "valid_utf8 (ID i) \<and> whole_minutes (Timestamp i)"
  shows "keyed (bucket (snd (Enqueue E s i w)))"
proof (cases s)
  case None
  then show ?thesis using k by (simp add: Enqueue_def)
next
  case (Some st)
  show ?thesis
  proof (cases "db st")
    case False
    then show ?thesis using k Some by (simp add: Enqueue_def)
  next
    case True
    obtain i1 w1 where n: "normalize_Item E i w = (i1, w1)" by (cases "normalize_Item E i w")
    have b1: "bucket w1 = bucket w" using normalize_bucket[of E i w] n by simp
    have n1: "normal_item i1" using normalize_normal[OF clock ts, of w] n by simp
    have x1: "json_string (ID i1) = ID i1" "json_time (Timestamp i1) = Timestamp i1"
      using normalize_exact[of E i w, OF uuid zones] ex n
      by (simp_all add: valid_utf8_def json_time_exact)
    show ?thesis
    proof (cases "json_Marshal_Item (i1\<lparr>bucketKey := buildKey i1\<rparr>)")
      case (Inl e)
      then show ?thesis using Some True n k b1 by (simp add: Enqueue_def Let_def)
    next
      case (Inr payload)
      then have p: "payload = stored_form (i1\<lparr>bucketKey := buildKey i1\<rparr>)"
        by (auto simp: json_Marshal_Item_def split: if_splits)
      have e: "normal_key_entry (buildKey i1, payload)"
        using n1 x1 unfolding p normal_key_entry_def normal_item_def stored_form_def
        by (simp add: buildKey_def)
      have "keyed (Put (buildKey i1) payload (bucket w))" using keyed_Put[OF k e] .
      then show ?thesis using Some True n Inr k b1
        by (simp add: Enqueue_def Let_def db_Update_def)
    qed
  qed
qed

lemma Enqueue_all_keyed:
  assumes clock: "\<And>n. 0 \<le> UnixNano (time_Now E n)"
    and uuid: "\<And>n. valid_utf8 (uuid_NewString E n)"
    and zones: "\<And>n. whole_minutes (time_Now E n)"
  shows "keyed (bucket w)
    \<Longrightarrow> list_all (\<lambda>i. IsZero (Timestamp i) \<or> 0 \<le> UnixNano (Timestamp i)) items
    \<Longrightarrow> list_all (\<lambda>i. valid_utf8 (ID i) \<and> whole_minutes (Timestamp i)) items
    \<Longrightarrow> keyed (bucket (Enqueue_all E s items w))"
proof (induction items arbitrary: w)
  case Nil
  then show ?case by simp
next
  case (Cons i items)
  have "keyed (bucket (snd (Enqueue E s i w)))"
    using Enqueue_keyed[OF Cons.prems(1) clock uuid zones] Cons.prems(2,3) by simp
  then show ?case using Cons.IH Cons.prems(2,3) by simp
qed


lemma GetBatch_loop_ok:
  "sorted_wrt (<) (map bucketKey acc @ map fst b) \<Longrightarrow> list_all batch_item_ok acc
     \<Longrightarrow> list_all normal_key_entry b
     \<Longrightarrow> sorted_wrt (<) (map bucketKey (GetBatch_loop limit acc b))
         \<and> list_all batch_item_ok (GetBatch_loop limit acc b)"
proof (induction b arbitrary: acc)
  case Nil
  then show ?case by simp
next
  case (Cons e b)
  obtain k v where e: "e = (k, v)" by (cases e)
  obtain it where v: "v = Doc it" and kk: "k = buildKey it" and ni: "normal_item it"
    using Cons.prems(3) e by (auto simp: normal_key_entry_def split: blob.splits)
  show ?case
  proof (cases "int (length acc) < limit")
    case False
    then show ?thesis using Cons.prems e by (simp add: sorted_wrt_append)
  next
    case True
    let ?acc = "acc @ [it\<lparr>bucketKey := k\<rparr>]"
    have 1: "sorted_wrt (<) (map bucketKey ?acc @ map fst b)" using Cons.prems(1) e by simp
    have "batch_item_ok (it\<lparr>bucketKey := k\<rparr>)"
      using kk ni by (simp add: batch_item_ok_def normal_item_def buildKey_def)
    then have 2: "list_all batch_item_ok ?acc"
      using Cons.prems(2) by simp
    have 3: "list_all normal_key_entry b" using Cons.prems(3) by simp
    show ?thesis using Cons.IH[OF 1 2 3] True e v by simp
  qed
qed

lemma int64_id: "0 \<le> i \<Longrightarrow> i < 2 ^ 63 \<Longrightarrow> int64 i = i"
  by (simp add: int64_def mod_pos_pos_trivial)

lemma ok_Env_clock: "0 \<le> UnixNano (time_Now ok_Env n)"
  by (simp add: ok_Env_def UnixNano_def utc_def int64_id)

lemma ok_Env_zones: "whole_minutes (time_Now ok_Env n)"
  by (simp add: ok_Env_def whole_minutes_def utc_def)

lemma ok_Env_uuid: "valid_utf8 (uuid_NewString ok_Env n)"
  unfolding valid_utf8_def ok_Env_def by (cases "n = 0") (simp_all, code_simp+)

text \<open>
  Claim C2 (amended). \<open>json.Marshal\<close> writes an id that is not valid UTF-8 with U+FFFD in
  the place of each offending byte, and a time whose zone offset is not a whole number
  of minutes with the offset cut to minutes, whereas \<open>buildKey\<close> uses the bytes of the
  id and the nanoseconds of the time as they are. So the statement holds for ids that
  are valid UTF-8 and times with whole-minute offsets: start from a keyed bucket (the
  empty one, for instance) and enqueue any items whose ids are valid UTF-8 (or empty,
  then \<open>normalize_Item\<close> draws one) and whose timestamps have a whole-minute offset and
  are zero (then \<open>normalize_Item\<close> reads the clock) or have a non-negative \<open>UnixNano\<close>,
  under a clock whose readings have a non-negative \<open>UnixNano\<close> and a whole-minute
  offset, and a generator of ids that are valid UTF-8. Then every batch that
  \<open>GetBatch\<close> returns is sorted, strictly ascending, by the tuple (priority,
  enqueued-at in nanoseconds, id); each returned record carries the key that
  \<open>buildKey\<close> gives it, with a priority in 1..5; and for any two records of the batch
  the byte order of their keys is the order of their tuples (ids compared byte-wise).
\<close>

theorem GetBatch_sorted:
  assumes start: "keyed (bucket w)"
    and clock: "\<And>n. 0 \<le> UnixNano (time_Now E n)"
    and zones: "\<And>n. whole_minutes (time_Now E n)"
    and uuid: "\<And>n. valid_utf8 (uuid_NewString E n)"
    and ts: "list_all (\<lambda>i. IsZero (Timestamp i) \<or> 0 \<le> UnixNano (Timestamp i)) items"
    and ex: "list_all (\<lambda>i. valid_utf8 (ID i) \<and> whole_minutes (Timestamp i)) items"
    and batch: "GetBatch E s limit (Enqueue_all E s items w) = (Inr batch, w')"
  shows "sorted_wrt (\<lambda>a b. order_tuple a < order_tuple b) batch
       \<and> list_all (\<lambda>a. bucketKey a = buildKey a \<and> 1 \<le> Priority a \<and> Priority a \<le> 5) batch
       \<and> list_all (\<lambda>a. list_all (\<lambda>b. (bucketKey a < bucketKey b)
                                        = (order_tuple a < order_tuple b)) batch) batch"
proof -
  let ?w = "Enqueue_all E s items w"
  have k: "keyed (bucket ?w)" using Enqueue_all_keyed[OF clock uuid zones start ts ex] .
  obtain st where s: "s = Some st" "db st"
    using batch by (auto simp: GetBatch_def split: option.splits if_splits)
  have b: "batch = GetBatch_loop (if limit \<le> 0 then 50 else limit) [] (bucket ?w)"
    using batch s by (auto simp: GetBatch_def db_View_def Let_def split: if_splits)
  have ok: "sorted_wrt (<) (map bucketKey batch) \<and> list_all batch_item_ok batch"
    unfolding b using k GetBatch_loop_ok[of "[]" "bucket ?w"] by (simp add: keyed_def)
  have eq: "\<And>a b. a \<in> set batch \<Longrightarrow> b \<in> set batch \<Longrightarrow>
      (bucketKey a < bucketKey b) = (order_tuple a < order_tuple b)"
  proof -
    fix a b assume "a \<in> set batch" "b \<in> set batch"
    then have "batch_item_ok a" "batch_item_ok b" using ok by (auto simp: list_all_iff)
    then show "(bucketKey a < bucketKey b) = (order_tuple a < order_tuple b)"
      using buildKey_less[of a b] by (simp add: batch_item_ok_def normal_item_def)
  qed
  have "sorted_wrt (\<lambda>a b. bucketKey a < bucketKey b) batch"
    using ok by (simp add: sorted_wrt_map)
  then have 1: "sorted_wrt (\<lambda>a b. order_tuple a < order_tuple b) batch"
    by (rule sorted_wrt_mono_rel[rotated]) (simp add: eq)
  have 2: "list_all (\<lambda>a. bucketKey a = buildKey a \<and> 1 \<le> Priority a \<and> Priority a \<le> 5) batch"
    using ok by (auto simp: list_all_iff batch_item_ok_def normal_item_def)
  have 3: "list_all (\<lambda>a. list_all (\<lambda>b. (bucketKey a < bucketKey b)
                                        = (order_tuple a < order_tuple b)) batch) batch"
    using eq by (simp add: list_all_iff)
  show ?thesis using 1 2 3 by simp
qed

theorem GetBatch_sorted_witness:
  "keyed (bucket empty_World)
   \<and> (\<forall>n. 0 \<le> UnixNano (time_Now ok_Env n))
   \<and> (\<forall>n. whole_minutes (time_Now ok_Env n))
   \<and> (\<forall>n. valid_utf8 (uuid_NewString ok_Env n))
   \<and> list_all (\<lambda>i. IsZero (Timestamp i) \<or> 0 \<le> UnixNano (Timestamp i)) three_Items
   \<and> list_all (\<lambda>i. valid_utf8 (ID i) \<and> whole_minutes (Timestamp i)) three_Items
   \<and> map bucketKey (projr (fst (GetBatch ok_Env open_Store 0
          (Enqueue_all ok_Env open_Store three_Items empty_World))))
       = [''3_00000000000000001000_uuid-0'', ''4_00000000000000000500_t0'',
          ''4_00000000000000000500_t1'']
   \<and> sorted_wrt (\<lambda>a b. order_tuple a < order_tuple b)
         (projr (fst (GetBatch ok_Env open_Store 0
            (Enqueue_all ok_Env open_Store three_Items empty_World))))"
proof -
  let ?r = "GetBatch ok_Env open_Store 0 (Enqueue_all ok_Env open_Store three_Items empty_World)"
  have h1: "keyed (bucket empty_World)" by (simp add: empty_World_def keyed_def)
  have h3: "list_all (\<lambda>i. IsZero (Timestamp i) \<or> 0 \<le> UnixNano (Timestamp i)) three_Items"
    by (simp add: three_Items_def task_Item_def profile_Item_def IsZero_def UnixNano_def
        utc_def int64_id)
  have h5: "list_all (\<lambda>i. valid_utf8 (ID i) \<and> whole_minutes (Timestamp i)) three_Items"
    by code_simp
  have "\<not> isl (fst ?r)" by code_simp
  then have h4: "?r = (Inr (projr (fst ?r)), snd ?r)"
    by (metis prod.collapse sum.collapse(2))
  have keys: "map bucketKey (projr (fst ?r))
       = [''3_00000000000000001000_uuid-0'', ''4_00000000000000000500_t0'',
          ''4_00000000000000000500_t1'']"
    by code_simp
  show ?thesis
    using GetBatch_sorted [OF h1 ok_Env_clock ok_Env_zones ok_Env_uuid h3 h5 h4]
      h1 h3 h5 keys ok_Env_clock ok_Env_zones ok_Env_uuid by simp
qed

text \<open>
  Claim C2 as worded does not hold: two task records of priority 4 and timestamp 500
  whose ids are the byte \<open>0xFF\<close> and the four bytes of U+1F600 are enqueued with
  success. The keys keep the bytes of the ids, so the record of U+1F600 comes first in
  the batch; but the id \<open>0xFF\<close> is read back as U+FFFD (bytes EF BF BD), which is
  smaller than the id of the record before it. The batch is not ascending in
  (priority, enqueued-at, id), and its second record does not carry the key that
  \<open>buildKey\<close> gives it.
\<close>

theorem GetBatch_order_counterexample:
  "list_all (\<lambda>i. 1 \<le> Priority i \<and> Priority i \<le> 5 \<and> 0 \<le> UnixNano (Timestamp i)) raw_id_Items
   \<and> fst (Enqueue ok_Env open_Store (raw_id_Items ! 0) empty_World) = None
   \<and> fst (Enqueue ok_Env open_Store (raw_id_Items ! 1)
            (snd (Enqueue ok_Env open_Store (raw_id_Items ! 0) empty_World))) = None
   \<and> map order_tuple (projr (fst (GetBatch ok_Env open_Store 50
          (Enqueue_all ok_Env open_Store raw_id_Items empty_World))))
       = [(4, 500, [CHR 0xF0, CHR 0x9F, CHR 0x98, CHR 0x80]),
          (4, 500, [CHR 0xEF, CHR 0xBF, CHR 0xBD])]
   \<and> \<not> sorted_wrt (\<lambda>a b. order_tuple a < order_tuple b)
         (projr (fst (GetBatch ok_Env open_Store 50
            (Enqueue_all ok_Env open_Store raw_id_Items empty_World))))
   \<and> \<not> list_all (\<lambda>a. bucketKey a = buildKey a)
         (projr (fst (GetBatch ok_Env open_Store 50
            (Enqueue_all ok_Env open_Store raw_id_Items empty_World))))"
  by code_simp

section \<open>What the repositories and the store leave alone\<close>

lemma Upsert_bucket: "bucket (snd (Upsert E u w)) = bucket w"
  by (simp add: Upsert_def pg_query_def now_def Let_def split: option.splits prod.splits)

lemma Create_bucket: "bucket (snd (Create E t w)) = bucket w"
  by (simp add: Create_def pg_query_def now_def NewString_def Let_def
      split: option.splits prod.splits)

lemma Update_bucket: "bucket (snd (Update E t w)) = bucket w"
  by (simp add: Update_def pg_query_def now_def Let_def split: option.splits prod.splits)

lemma Delete_bucket: "bucket (snd (Delete E i w)) = bucket w"
  by (simp add: Delete_def pg_query_def split: prod.splits)

lemma processItem_bucket: "bucket (snd (processItem E bp it w)) = bucket w"
proof -
  have u: "\<And>x. bucket (snd (case Upsert E x w of (r, w1) \<Rightarrow> (err_of r, w1))) = bucket w"
    using Upsert_bucket by (simp add: split_beta)
  have c: "\<And>x. bucket (snd (case Create E x w of (r, w1) \<Rightarrow> (err_of r, w1))) = bucket w"
    using Create_bucket by (simp add: split_beta)
  have p: "\<And>x. bucket (snd (case Update E x w of (r, w1) \<Rightarrow> (err_of r, w1))) = bucket w"
    using Update_bucket by (simp add: split_beta)
  show ?thesis
    unfolding processItem_def using u c p Delete_bucket
    by (simp split: sum.splits)
qed

lemma log_bucket [simp]: "bucket (log l m w) = bucket w"
  by (simp add: log_def)

lemma stored_form_bucketKey [simp]: "stored_form (i\<lparr>bucketKey := k\<rparr>) = stored_form i"
  by (simp add: stored_form_def)


section \<open>Priority classes of the bridge\<close>













lemma Entity_distinct: "EntityProfile \<noteq> EntityTask"
  by (simp add: EntityProfile_def EntityTask_def)




section \<open>Enqueue, Remove and Requeue on the bucket\<close>

lemma Enqueue_success:
  assumes "fst (Enqueue E s i w) = None"
  shows "bucket (snd (Enqueue E s i w))
       = Put (buildKey (fst (normalize_Item E i w)))
           (stored_form (fst (normalize_Item E i w)))
           (bucket w)"
proof (cases s)
  case None
  then show ?thesis using assms by (simp add: Enqueue_def)
next
  case (Some st)
  obtain i1 w1 where n: "normalize_Item E i w = (i1, w1)" by (cases "normalize_Item E i w")
  have b1: "bucket w1 = bucket w" using normalize_bucket[of E i w] n by simp
  show ?thesis
    using Some n b1 assms
    by (auto simp: Enqueue_def Let_def db_Update_def json_Marshal_Item_def split: if_splits)
qed

lemma Enqueue_failure:
  assumes "fst (Enqueue E s i w) \<noteq> None"
  shows "bucket (snd (Enqueue E s i w)) = bucket w"
proof (cases s)
  case None
  then show ?thesis by (simp add: Enqueue_def)
next
  case (Some st)
  obtain i1 w1 where n: "normalize_Item E i w = (i1, w1)" by (cases "normalize_Item E i w")
  have b1: "bucket w1 = bucket w" using normalize_bucket[of E i w] n by simp
  show ?thesis
    using Some n b1 assms
    by (auto simp: Enqueue_def Let_def db_Update_def json_Marshal_Item_def split: if_splits)
qed

lemma Remove_success:
  assumes "fst (Remove E s item w) = None" and "bucketKey item \<noteq> []"
  shows "bucket (snd (Remove E s item w)) = Delete_key (bucketKey item) (bucket w)"
  using assms
  by (auto simp: Remove_def db_Update_def Let_def split: option.splits if_splits)

lemma Remove_failure:
  assumes "fst (Remove E s item w) \<noteq> None"
  shows "bucket (snd (Remove E s item w)) = bucket w"
  using assms
  by (auto simp: Remove_def deleteByID_def db_Update_def Let_def split: option.splits if_splits)

lemma now_bucket [simp]: "bucket (snd (now E w)) = bucket w"
  by (simp add: now_def)

lemma Requeue_as_Enqueue:
  "Requeue E s item w
     = Enqueue E s (item\<lparr>bucketKey := [], Timestamp := time_Now E (n_now w)\<rparr>) (snd (now E w))"
  by (simp add: Requeue_def now_def)

lemma Put_keeps: "e \<in> set b \<Longrightarrow> fst e \<noteq> k \<Longrightarrow> e \<in> set (Put k v b)"
  by (induction b) (auto split: if_splits)


lemma sorted_keys_distinct:
  "sorted_wrt (<) (map fst b) \<Longrightarrow> distinct (map fst b)" for b :: "(string \<times> blob) list"
  using strict_sorted_iff[of "map fst b"] by blast

lemma normalize_bucketKey:
  "normalize_Item E (i\<lparr>bucketKey := k\<rparr>) w
     = ((fst (normalize_Item E i w))\<lparr>bucketKey := k\<rparr>, snd (normalize_Item E i w))"
  by (simp add: normalize_Item_def NewString_def now_def Let_def split: prod.splits)

lemma buildKey_bucketKey [simp]: "buildKey (i\<lparr>bucketKey := k\<rparr>) = buildKey i"
  by (simp add: buildKey_def)

lemma Enqueue_ignores_bucketKey: "Enqueue E s (i\<lparr>bucketKey := k\<rparr>) w = Enqueue E s i w"
proof -
  obtain i1 w1 where n: "normalize_Item E i w = (i1, w1)" by (cases "normalize_Item E i w")
  show ?thesis
    by (cases s) (simp_all add: Enqueue_def normalize_bucketKey n Let_def split: sum.splits)
qed

lemma distinct_key_once:
  "distinct (map fst b) \<Longrightarrow> k \<in> fst ` set b \<Longrightarrow> length (filter (\<lambda>e. fst e = k) b) = 1"
proof (induction b)
  case Nil
  then show ?case by simp
next
  case (Cons e b)
  show ?case
  proof (cases "fst e = k")
    case True
    then have "k \<notin> fst ` set b" using Cons.prems(1) by auto
    then have "filter (\<lambda>e. fst e = k) b = []" by (auto simp: filter_empty_conv)
    with True show ?thesis by simp
  next
    case False
    then show ?thesis using Cons by auto
  qed
qed

lemma Delete_key_sorted:
  "sorted_wrt (<) (map fst b) \<Longrightarrow> sorted_wrt (<) (map fst (Delete_key k b))"
  unfolding Delete_key_def by (auto simp: sorted_wrt_map intro: sorted_wrt_filter)

lemma Delete_key_fst_set: "fst ` set (Delete_key k b) = fst ` set b - {k}"
  unfolding Delete_key_def by auto

text \<open>
  Claim C8, as the code has it. \<open>Requeue\<close> is \<open>Enqueue\<close> of the item with its handle
  cleared and its timestamp refreshed from the clock; it deletes nothing: every entry of
  the bucket stays, unless it sits under the new key and is overwritten. It is
  \<open>Remove\<close> followed by \<open>Requeue\<close>, the sequence of the drain loop, that equals
  \<open>Remove\<close> followed by \<open>Enqueue\<close> with the refreshed timestamp: when the item has a
  handle and both calls succeed, the bucket is the old one without the entry under the
  handle and with the item under its new key, which then occurs exactly once, while the
  old handle is gone unless the new key equals it; retries, payload, entity and
  operation are unchanged, and so is a non-empty id.
\<close>

theorem Requeue_after_Remove:
  fixes E :: Env and s :: "Store option" and item :: Item and w :: World
  defines "t \<equiv> time_Now E (n_now (snd (Remove E s item w)))"
  defines "i1 \<equiv> fst (normalize_Item E (item\<lparr>bucketKey := [], Timestamp := t\<rparr>)
                        (snd (now E (snd (Remove E s item w)))))"
  defines "w2 \<equiv> snd (Requeue E s item (snd (Remove E s item w)))"
  defines "j1 \<equiv> fst (normalize_Item E (item\<lparr>bucketKey := [], Timestamp := time_Now E (n_now w)\<rparr>)
                        (snd (now E w)))"
  assumes handle: "bucketKey item \<noteq> []"
    and sorted: "sorted_wrt (<) (map fst (bucket w))"
    and removed: "fst (Remove E s item w) = None"
    and requeued: "fst (Requeue E s item (snd (Remove E s item w))) = None"
  shows "Requeue E s item w
           = Enqueue E s (item\<lparr>bucketKey := [], Timestamp := time_Now E (n_now w)\<rparr>)
               (snd (now E w))
       \<and> list_all (\<lambda>e. fst e = buildKey j1 \<or> e \<in> set (bucket (snd (Requeue E s item w))))
           (bucket w)
       \<and> bucket w2 = bucket (snd (Enqueue E s (item\<lparr>Timestamp := t\<rparr>)
                                    (snd (now E (snd (Remove E s item w))))))
       \<and> bucket w2 = Put (buildKey i1) (stored_form i1)
                       (Delete_key (bucketKey item) (bucket w))
       \<and> length (filter (\<lambda>e. fst e = buildKey i1) (bucket w2)) = 1
       \<and> (buildKey i1 = bucketKey item \<or> bucketKey item \<notin> fst ` set (bucket w2))
       \<and> Retries i1 = Retries item \<and> Data i1 = Data item \<and> Entity i1 = Entity item
       \<and> Operation i1 = Operation item \<and> (ID item = [] \<or> ID i1 = ID item)"
proof -
  let ?w1 = "snd (Remove E s item w)"
  have A: "Requeue E s item w
           = Enqueue E s (item\<lparr>bucketKey := [], Timestamp := time_Now E (n_now w)\<rparr>)
               (snd (now E w))"
    by (rule Requeue_as_Enqueue)
  let ?j = "item\<lparr>bucketKey := [], Timestamp := time_Now E (n_now w)\<rparr>"
  have D: "list_all (\<lambda>e. fst e = buildKey j1 \<or> e \<in> set (bucket (snd (Requeue E s item w))))
             (bucket w)"
  proof (cases "fst (Requeue E s item w) = None")
    case True
    then have "bucket (snd (Requeue E s item w))
        = Put (buildKey j1) (stored_form j1) (bucket w)"
      unfolding A j1_def using Enqueue_success[of E s ?j "snd (now E w)"] by simp
    then show ?thesis by (auto simp: list_all_iff intro: Put_keeps)
  next
    case False
    then have "bucket (snd (Requeue E s item w)) = bucket w"
      unfolding A using Enqueue_failure[of E s ?j "snd (now E w)"] by simp
    then show ?thesis by (simp add: list_all_iff)
  qed
  have r: "Requeue E s item ?w1
      = Enqueue E s (item\<lparr>bucketKey := [], Timestamp := t\<rparr>) (snd (now E ?w1))"
    unfolding t_def by (rule Requeue_as_Enqueue)
  have same: "Enqueue E s (item\<lparr>bucketKey := [], Timestamp := t\<rparr>) (snd (now E ?w1))
      = Enqueue E s (item\<lparr>Timestamp := t\<rparr>) (snd (now E ?w1))"
  proof -
    have "item\<lparr>bucketKey := [], Timestamp := t\<rparr> = (item\<lparr>Timestamp := t\<rparr>)\<lparr>bucketKey := []\<rparr>"
      by simp
    then show ?thesis by (simp only: Enqueue_ignores_bucketKey)
  qed
  have C: "bucket w2 = bucket (snd (Enqueue E s (item\<lparr>Timestamp := t\<rparr>) (snd (now E ?w1))))"
    unfolding w2_def r same ..
  have b1: "bucket ?w1 = Delete_key (bucketKey item) (bucket w)"
    using Remove_success[OF removed handle] .
  have B: "bucket w2 = Put (buildKey i1) (stored_form i1)
                       (Delete_key (bucketKey item) (bucket w))"
    unfolding w2_def i1_def
    using Enqueue_success[of E s "item\<lparr>bucketKey := [], Timestamp := t\<rparr>" "snd (now E ?w1)"]
      requeued b1 unfolding r by simp
  have srt: "sorted_wrt (<) (map fst (bucket w2))"
    unfolding B by (intro Put_sorted Delete_key_sorted sorted)
  have mem: "buildKey i1 \<in> fst ` set (bucket w2)"
    unfolding B by (simp add: Put_fst_set)
  have F: "length (filter (\<lambda>e. fst e = buildKey i1) (bucket w2)) = 1"
    using distinct_key_once[OF sorted_keys_distinct[OF srt] mem] .
  have G: "buildKey i1 = bucketKey item \<or> bucketKey item \<notin> fst ` set (bucket w2)"
    unfolding B by (auto simp: Put_fst_set Delete_key_fst_set)
  have H: "Retries i1 = Retries item \<and> Data i1 = Data item \<and> Entity i1 = Entity item
       \<and> Operation i1 = Operation item \<and> (ID item = [] \<or> ID i1 = ID item)"
    unfolding i1_def
    by (simp add: normalize_Item_def NewString_def now_def Let_def split: prod.splits)
  from H show ?thesis by (intro conjI A D C B F G) (simp_all only:)
qed

theorem Requeue_after_Remove_witness:
  "bucketKey stored_Item \<noteq> []
   \<and> sorted_wrt (<) (map fst (bucket one_World))
   \<and> fst (Remove ok_Env open_Store stored_Item one_World) = None
   \<and> fst (Requeue ok_Env open_Store stored_Item
            (snd (Remove ok_Env open_Store stored_Item one_World))) = None
   \<and> map fst (bucket one_World) = [''4_00000000000000000500_t1'']
   \<and> map fst (bucket (snd (Requeue ok_Env open_Store stored_Item
            (snd (Remove ok_Env open_Store stored_Item one_World)))))
       = [''4_00000000000000001000_t1'']
   \<and> length (filter (\<lambda>e. fst e = ''4_00000000000000001000_t1'')
        (bucket (snd (Requeue ok_Env open_Store stored_Item
            (snd (Remove ok_Env open_Store stored_Item one_World)))))) = 1"
proof -
  have h1: "bucketKey stored_Item \<noteq> []" by code_simp
  have h2: "sorted_wrt (<) (map fst (bucket one_World))" by code_simp
  have h3: "fst (Remove ok_Env open_Store stored_Item one_World) = None" by code_simp
  have h4: "fst (Requeue ok_Env open_Store stored_Item
            (snd (Remove ok_Env open_Store stored_Item one_World))) = None" by code_simp
  have k0: "map fst (bucket one_World) = [''4_00000000000000000500_t1'']" by code_simp
  have k1: "map fst (bucket (snd (Requeue ok_Env open_Store stored_Item
            (snd (Remove ok_Env open_Store stored_Item one_World)))))
       = [''4_00000000000000001000_t1'']" by code_simp
  have k2: "buildKey (fst (normalize_Item ok_Env
      (stored_Item\<lparr>bucketKey := [],
         Timestamp := time_Now ok_Env (n_now (snd (Remove ok_Env open_Store stored_Item one_World)))\<rparr>)
      (snd (now ok_Env (snd (Remove ok_Env open_Store stored_Item one_World))))))
      = ''4_00000000000000001000_t1''" by code_simp
  note T = Requeue_after_Remove [OF h1 h2 h3 h4]
  have "length (filter (\<lambda>e. fst e = buildKey (fst (normalize_Item ok_Env
      (stored_Item\<lparr>bucketKey := [],
         Timestamp := time_Now ok_Env (n_now (snd (Remove ok_Env open_Store stored_Item one_World)))\<rparr>)
      (snd (now ok_Env (snd (Remove ok_Env open_Store stored_Item one_World)))))))
        (bucket (snd (Requeue ok_Env open_Store stored_Item
            (snd (Remove ok_Env open_Store stored_Item one_World)))))) = 1"
    using T by (elim conjE)
  then have c: "length (filter (\<lambda>e. fst e = ''4_00000000000000001000_t1'')
        (bucket (snd (Requeue ok_Env open_Store stored_Item
            (snd (Remove ok_Env open_Store stored_Item one_World)))))) = 1"
    unfolding k2 .
  show ?thesis by (intro conjI h1 h2 h3 h4 k0 k1 c)
qed

text \<open>
  Claim C8 as stated fails: on a bucket with one record, \<open>Requeue\<close> of that record
  (handle set, as a batch returns it) leaves two entries, the old one under the previous
  handle and the new one, whereas \<open>Remove\<close> followed by \<open>Enqueue\<close> with the refreshed
  timestamp leaves only the new one.
\<close>

theorem Requeue_alone_counterexample:
  "map fst (bucket one_World) = [''4_00000000000000000500_t1'']
   \<and> bucketKey stored_Item = ''4_00000000000000000500_t1''
   \<and> map fst (bucket (snd (Requeue ok_Env open_Store stored_Item one_World)))
       = [''4_00000000000000000500_t1'', ''4_00000000000000001000_t1'']
   \<and> map fst (bucket (snd (Enqueue ok_Env open_Store (stored_Item\<lparr>Timestamp := utc 1000\<rparr>)
         (snd (Remove ok_Env open_Store stored_Item one_World)))))
       = [''4_00000000000000001000_t1'']"
  by code_simp

section \<open>One item of the drain loop\<close>

lemma normalize_Item_world:
  "n_now w = n_now w' \<Longrightarrow> n_uuid w = n_uuid w'
     \<Longrightarrow> fst (normalize_Item E i w) = fst (normalize_Item E i w')"
  by (simp add: normalize_Item_def NewString_def now_def Let_def split: prod.splits)

lemma normalize_Item_frame:
  "n_bolt (snd (normalize_Item E i w)) = n_bolt w
   \<and> n_pg (snd (normalize_Item E i w)) = n_pg w
   \<and> logs (snd (normalize_Item E i w)) = logs w
   \<and> users (snd (normalize_Item E i w)) = users w
   \<and> tasks (snd (normalize_Item E i w)) = tasks w"
  by (simp add: normalize_Item_def NewString_def now_def Let_def split: prod.splits)

lemma normalize_Item_fields:
  "Retries (fst (normalize_Item E i w)) = Retries i
   \<and> Data (fst (normalize_Item E i w)) = Data i
   \<and> Entity (fst (normalize_Item E i w)) = Entity i
   \<and> Operation (fst (normalize_Item E i w)) = Operation i
   \<and> UserID (fst (normalize_Item E i w)) = UserID i
   \<and> (ID i \<noteq> [] \<longrightarrow> ID (fst (normalize_Item E i w)) = ID i)"
  by (simp add: normalize_Item_def NewString_def now_def Let_def split: prod.splits)

lemma Remove_ok:
  assumes "db st" and "bucketKey item \<noteq> []" and "\<not> bolt_fails E (n_bolt w)"
  shows "Remove E (Some st) item w
       = (None, w\<lparr>n_bolt := Suc (n_bolt w), bucket := Delete_key (bucketKey item) (bucket w)\<rparr>)"
  using assms by (simp add: Remove_def db_Update_def Let_def)

lemma Remove_bolt_error:
  assumes "db st" and "bucketKey item \<noteq> []" and "bolt_fails E (n_bolt w)"
  shows "Remove E (Some st) item w = (Some ErrBolt, w\<lparr>n_bolt := Suc (n_bolt w)\<rparr>)"
  using assms by (simp add: Remove_def db_Update_def Let_def)

lemma Enqueue_ok:
  assumes "db st" and "\<not> bolt_fails E (n_bolt w)" and "Data i \<noteq> RawInvalid"
    and "time_marshalable (Timestamp (fst (normalize_Item E i w)))"
  shows "Enqueue E (Some st) i w
       = (None, (snd (normalize_Item E i w))
            \<lparr>n_bolt := Suc (n_bolt w),
             bucket := Put (buildKey (fst (normalize_Item E i w)))
                         (stored_form (fst (normalize_Item E i w))) (bucket w)\<rparr>)"
proof -
  obtain i1 w1 where n: "normalize_Item E i w = (i1, w1)" by (cases "normalize_Item E i w")
  have f: "n_bolt w1 = n_bolt w" "bucket w1 = bucket w" "Data i1 = Data i"
    using normalize_Item_frame[of E i w] normalize_bucket[of E i w]
      normalize_Item_fields[of E i w] n by simp_all
  show ?thesis
    using assms f n
    by (simp add: Enqueue_def Let_def json_Marshal_Item_def db_Update_def stored_form_def)
qed

lemma Enqueue_bolt_error:
  assumes "db st" and "bolt_fails E (n_bolt w)" and "Data i \<noteq> RawInvalid"
    and "time_marshalable (Timestamp (fst (normalize_Item E i w)))"
  shows "Enqueue E (Some st) i w
       = (Some ErrBolt, (snd (normalize_Item E i w))\<lparr>n_bolt := Suc (n_bolt w)\<rparr>)"
proof -
  obtain i1 w1 where n: "normalize_Item E i w = (i1, w1)" by (cases "normalize_Item E i w")
  have f: "n_bolt w1 = n_bolt w" "bucket w1 = bucket w" "Data i1 = Data i"
    using normalize_Item_frame[of E i w] normalize_bucket[of E i w]
      normalize_Item_fields[of E i w] n by simp_all
  show ?thesis
    using assms f n
    by (simp add: Enqueue_def Let_def json_Marshal_Item_def db_Update_def stored_form_def)
qed


lemma requeue_form_fields:
  "Retries (requeue_form E item w) = int64 (Retries item + 1)
   \<and> Data (requeue_form E item w) = Data item
   \<and> Entity (requeue_form E item w) = Entity item
   \<and> Operation (requeue_form E item w) = Operation item
   \<and> UserID (requeue_form E item w) = UserID item
   \<and> (ID item \<noteq> [] \<longrightarrow> ID (requeue_form E item w) = ID item)"
  unfolding requeue_form_def
  using normalize_Item_fields[of E "item\<lparr>Retries := int64 (Retries item + 1), bucketKey := [],
                  Timestamp := time_Now E (n_now w)\<rparr>" "snd (now E w)"]
  by simp


lemma log_frame [simp]:
  "n_now (log l m w) = n_now w" "n_uuid (log l m w) = n_uuid w" "n_bolt (log l m w) = n_bolt w"
  "n_pg (log l m w) = n_pg w" "users (log l m w) = users w" "tasks (log l m w) = tasks w"
  "logs (log l m w) = logs w @ [(l, m)]"
  by (simp_all add: log_def)

lemma Requeue_ok:
  assumes "db st" and "\<not> bolt_fails E (n_bolt w)" and "Data item \<noteq> RawInvalid"
    and clock: "\<And>n. time_marshalable (time_Now E n)"
  defines "j \<equiv> item\<lparr>bucketKey := [], Timestamp := time_Now E (n_now w)\<rparr>"
  shows "Requeue E (Some st) item w
       = (None, (snd (normalize_Item E j (snd (now E w))))
            \<lparr>n_bolt := Suc (n_bolt w),
             bucket := Put (buildKey (fst (normalize_Item E j (snd (now E w)))))
                         (stored_form (fst (normalize_Item E j (snd (now E w))))) (bucket w)\<rparr>)"
proof -
  have tm: "time_marshalable (Timestamp (fst (normalize_Item E j (snd (now E w)))))"
    using clock by (simp add: normalize_Timestamp j_def)
  have "Enqueue E (Some st) j (snd (now E w))
       = (None, (snd (normalize_Item E j (snd (now E w))))
            \<lparr>n_bolt := Suc (n_bolt (snd (now E w))),
             bucket := Put (buildKey (fst (normalize_Item E j (snd (now E w)))))
                         (stored_form (fst (normalize_Item E j (snd (now E w)))))
                         (bucket (snd (now E w)))\<rparr>)"
    using assms(1-3) tm by (intro Enqueue_ok) (simp_all add: now_def j_def)
  then show ?thesis
    unfolding Requeue_as_Enqueue j_def by (simp add: now_def)
qed

lemma Remove_pg_frame:
  "n_pg (snd (Remove E s item w)) = n_pg w \<and> users (snd (Remove E s item w)) = users w
   \<and> tasks (snd (Remove E s item w)) = tasks w"
  by (simp add: Remove_def deleteByID_def db_Update_def Let_def split: option.splits)

lemma Enqueue_pg_frame:
  "n_pg (snd (Enqueue E s i w)) = n_pg w \<and> users (snd (Enqueue E s i w)) = users w
   \<and> tasks (snd (Enqueue E s i w)) = tasks w"
proof -
  obtain i1 w1 where n: "normalize_Item E i w = (i1, w1)" by (cases "normalize_Item E i w")
  have f: "n_pg w1 = n_pg w" "users w1 = users w" "tasks w1 = tasks w"
    using normalize_Item_frame[of E i w] n by simp_all
  show ?thesis
    using n f
    by (simp add: Enqueue_def db_Update_def Let_def split: option.splits sum.splits)
qed

lemma Requeue_pg_frame:
  "n_pg (snd (Requeue E s item w)) = n_pg w \<and> users (snd (Requeue E s item w)) = users w
   \<and> tasks (snd (Requeue E s item w)) = tasks w"
  unfolding Requeue_as_Enqueue using Enqueue_pg_frame[of E s _ "snd (now E w)"]
  by (simp add: now_def)

lemma Drain_item_pg_frame:
  assumes fail: "processItem E bp item w = (Some err, w1)"
  shows "n_pg (Drain_item E bp item w) = n_pg w1 \<and> users (Drain_item E bp item w) = users w1
       \<and> tasks (Drain_item E bp item w) = tasks w1"
proof -
  let ?item1 = "item\<lparr>Retries := int64 (Retries item + 1)\<rparr>"
  let ?w2 = "log ErrorLevel ''failed to process buffer item'' w1"
  show ?thesis
  proof (cases "MaxRetries (cfg bp) \<le> int64 (Retries item + 1)")
    case True
    then show ?thesis
      using fail Remove_pg_frame[of E "store bp" ?item1
          "log WarnLevel ''dropping buffer item (max retries reached)'' ?w2"]
      by (simp add: Drain_item_def Let_def)
  next
    case False
    obtain e1 w3 where rm: "Remove E (store bp) ?item1 ?w2 = (e1, w3)"
      by (cases "Remove E (store bp) ?item1 ?w2")
    let ?w4 = "if e1 \<noteq> None then log WarnLevel ''failed to remove buffer item'' w3 else w3"
    obtain e2 w5 where rq: "Requeue E (store bp) ?item1 ?w4 = (e2, w5)"
      by (cases "Requeue E (store bp) ?item1 ?w4")
    have f3: "n_pg w3 = n_pg w1" "users w3 = users w1" "tasks w3 = tasks w1"
      using Remove_pg_frame[of E "store bp" ?item1 ?w2] rm by simp_all
    have f5: "n_pg w5 = n_pg w1" "users w5 = users w1" "tasks w5 = tasks w1"
      using Requeue_pg_frame[of E "store bp" ?item1 ?w4] rq f3 by (simp_all split: if_splits)
    have "Drain_item E bp item w
        = (if e2 \<noteq> None then log ErrorLevel ''failed to requeue buffer item'' w5 else w5)"
      using fail False rm rq by (simp add: Drain_item_def Let_def)
    then show ?thesis using f5 by simp
  qed
qed

lemma Drain_item_failed:
  assumes st: "store bp = Some st" "db st"
    and fail: "processItem E bp item w = (Some err, w1)"
    and key: "bucketKey item \<noteq> []"
    and bolt: "\<And>n. \<not> bolt_fails E n"
    and data: "Data item \<noteq> RawInvalid"
    and clock: "\<And>n. time_marshalable (time_Now E n)"
  shows "bucket (Drain_item E bp item w)
       = (if MaxRetries (cfg bp) \<le> int64 (Retries item + 1)
          then Delete_key (bucketKey item) (bucket w)
          else Put (buildKey (requeue_form E item w1)) (stored_form (requeue_form E item w1))
                 (Delete_key (bucketKey item) (bucket w)))
    \<and> n_pg (Drain_item E bp item w) = n_pg w1
    \<and> users (Drain_item E bp item w) = users w1
    \<and> tasks (Drain_item E bp item w) = tasks w1
    \<and> logs (Drain_item E bp item w)
       = logs w1 @ (ErrorLevel, ''failed to process buffer item'')
           # (if MaxRetries (cfg bp) \<le> int64 (Retries item + 1)
              then [(WarnLevel, ''dropping buffer item (max retries reached)'')] else [])"
proof -
  let ?r = "int64 (Retries item + 1)"
  let ?item1 = "item\<lparr>Retries := ?r\<rparr>"
  let ?w2 = "log ErrorLevel ''failed to process buffer item'' w1"
  have b1: "bucket w1 = bucket w" using processItem_bucket[of E bp item w] fail by simp
  have k1: "bucketKey ?item1 \<noteq> []" using key by simp
  have d1: "Data ?item1 \<noteq> RawInvalid" using data by simp
  show ?thesis
  proof (cases "MaxRetries (cfg bp) \<le> ?r")
    case True
    let ?w3 = "log WarnLevel ''dropping buffer item (max retries reached)'' ?w2"
    have "Drain_item E bp item w = snd (Remove E (Some st) ?item1 ?w3)"
      using fail st True by (simp add: Drain_item_def Let_def)
    also have "\<dots> = ?w3\<lparr>n_bolt := Suc (n_bolt ?w3),
                         bucket := Delete_key (bucketKey ?item1) (bucket ?w3)\<rparr>"
      using Remove_ok[OF st(2) k1, of E ?w3] bolt by simp
    finally show ?thesis
      using True b1 by simp
  next
    case False
    let ?w3 = "?w2\<lparr>n_bolt := Suc (n_bolt ?w2),
                    bucket := Delete_key (bucketKey ?item1) (bucket ?w2)\<rparr>"
    let ?j = "?item1\<lparr>bucketKey := [], Timestamp := time_Now E (n_now ?w3)\<rparr>"
    have rm: "Remove E (Some st) ?item1 ?w2 = (None, ?w3)"
      using Remove_ok[OF st(2) k1, of E ?w2] bolt by simp
    have rq: "Requeue E (Some st) ?item1 ?w3
       = (None, (snd (normalize_Item E ?j (snd (now E ?w3))))
            \<lparr>n_bolt := Suc (n_bolt ?w3),
             bucket := Put (buildKey (fst (normalize_Item E ?j (snd (now E ?w3)))))
                         (stored_form (fst (normalize_Item E ?j (snd (now E ?w3))))) (bucket ?w3)\<rparr>)"
      using Requeue_ok[OF st(2) _ d1 clock, of ?w3] bolt by simp
    have rf: "fst (normalize_Item E ?j (snd (now E ?w3))) = requeue_form E item w1"
      unfolding requeue_form_def
      by (simp add: now_def) (rule normalize_Item_world, simp_all)
    have "Drain_item E bp item w
        = (snd (normalize_Item E ?j (snd (now E ?w3))))
            \<lparr>n_bolt := Suc (n_bolt ?w3),
             bucket := Put (buildKey (requeue_form E item w1))
                         (stored_form (requeue_form E item w1)) (bucket ?w3)\<rparr>"
      using fail st False rm rq rf by (simp add: Drain_item_def Let_def)
    then show ?thesis
      using False b1 normalize_Item_frame[of E ?j "snd (now E ?w3)"]
      by (simp add: now_def)
  qed
qed

section \<open>Poison records\<close>




lemma Drain_item_succeeded:
  assumes st: "store bp = Some st" "db st"
    and ok: "processItem E bp item w = (None, w1)"
    and key: "bucketKey item \<noteq> []"
    and bolt: "\<And>n. \<not> bolt_fails E n"
  shows "Drain_item E bp item w
       = w1\<lparr>n_bolt := Suc (n_bolt w1), bucket := Delete_key (bucketKey item) (bucket w)\<rparr>"
proof -
  have b1: "bucket w1 = bucket w" using processItem_bucket[of E bp item w] ok by simp
  show ?thesis
    using ok st b1 Remove_ok[OF st(2) key, of E w1] bolt
    by (simp add: Drain_item_def)
qed




section \<open>Deleting a task that is not there\<close>

lemma Delete_absent:
  assumes "tasks w i = None" and "\<not> pg_fails E (n_pg w)"
  shows "Delete E i w = (Some ErrTaskNotFound, w\<lparr>n_pg := Suc (n_pg w)\<rparr>)"
  using assms by (simp add: Delete_def pg_query_def)

lemma Operation_distinct:
  "OperationDelete \<noteq> OperationCreate" "OperationDelete \<noteq> OperationUpdate"
  "OperationCreate \<noteq> OperationUpdate"
  by (simp_all add: OperationDelete_def OperationCreate_def OperationUpdate_def)

lemma processItem_delete:
  assumes "Entity item = EntityTask" and "Operation item = OperationDelete"
    and "Unmarshal_Task (Data item) = Inr t"
  shows "processItem E bp item w = Delete E (tID t) w"
  using assms Entity_distinct Operation_distinct by (simp add: processItem_def)

text \<open>
  Claim C7, as the code has it. For a task id absent from the \<open>tasks\<close> table, with
  Postgres answering, \<open>Delete\<close> affects no row and reports \<open>ErrTaskNotFound\<close>, and
  the use case \<open>DeleteTask\<close> returns that error to its caller and buffers nothing. On
  the drain path a buffered (task, delete) record for that id fails with the same
  error, whatever the buffer store does, and is charged against the retry budget like
  any failure. What the store holds afterwards is stated for a record as a batch hands
  it out (handle set) under three conditions: no transaction of the buffer store fails,
  every reading of the clock can be written as JSON (year within 0..9999 in its own
  location), and the retry count is at least 0 and below the largest \<open>int64\<close>. Then
  the failure is logged and the record is removed only when its incremented retry count
  reaches \<open>MaxRetries\<close>, and is requeued with one more retry otherwise.
\<close>

theorem delete_of_missing_task:
  assumes absent: "tasks w i = None"
    and pg: "\<not> pg_fails E (n_pg w)"
  shows "Delete E i w = (Some ErrTaskNotFound, w\<lparr>n_pg := Suc (n_pg w)\<rparr>)
       \<and> DeleteTask E uc i w = (Some ErrTaskNotFound, w\<lparr>n_pg := Suc (n_pg w)\<rparr>)
       \<and> (Entity item = EntityTask \<and> Operation item = OperationDelete
            \<and> Unmarshal_Task (Data item) = Inr t \<and> tID t = i
          \<longrightarrow> processItem E bp item w = (Some ErrTaskNotFound, w\<lparr>n_pg := Suc (n_pg w)\<rparr>)
              \<and> tasks (Drain_item E bp item w) = tasks w
              \<and> (store bp = Some st \<and> db st \<and> bucketKey item \<noteq> []
                   \<and> 0 \<le> Retries item \<and> Retries item < 2 ^ 63 - 1
                   \<and> (\<forall>n. \<not> bolt_fails E n) \<and> (\<forall>n. time_marshalable (time_Now E n))
                 \<longrightarrow> bucket (Drain_item E bp item w)
                       = (if MaxRetries (cfg bp) \<le> Retries item + 1
                          then Delete_key (bucketKey item) (bucket w)
                          else Put (buildKey (requeue_form E item w))
                                 (stored_form (requeue_form E item w))
                                 (Delete_key (bucketKey item) (bucket w)))
                     \<and> Retries (requeue_form E item w) = Retries item + 1
                     \<and> (ErrorLevel, ''failed to process buffer item'')
                          \<in> set (logs (Drain_item E bp item w))))"
proof -
  have d: "Delete E i w = (Some ErrTaskNotFound, w\<lparr>n_pg := Suc (n_pg w)\<rparr>)"
    using Delete_absent[OF absent pg] .
  have 1: "DeleteTask E uc i w = (Some ErrTaskNotFound, w\<lparr>n_pg := Suc (n_pg w)\<rparr>)"
    using d by (simp add: DeleteTask_def)
  have drain: "processItem E bp item w = (Some ErrTaskNotFound, w\<lparr>n_pg := Suc (n_pg w)\<rparr>)
              \<and> tasks (Drain_item E bp item w) = tasks w
              \<and> (store bp = Some st \<and> db st \<and> bucketKey item \<noteq> []
                   \<and> 0 \<le> Retries item \<and> Retries item < 2 ^ 63 - 1
                   \<and> (\<forall>n. \<not> bolt_fails E n) \<and> (\<forall>n. time_marshalable (time_Now E n))
                 \<longrightarrow> bucket (Drain_item E bp item w)
                       = (if MaxRetries (cfg bp) \<le> Retries item + 1
                          then Delete_key (bucketKey item) (bucket w)
                          else Put (buildKey (requeue_form E item w))
                                 (stored_form (requeue_form E item w))
                                 (Delete_key (bucketKey item) (bucket w)))
                     \<and> Retries (requeue_form E item w) = Retries item + 1
                     \<and> (ErrorLevel, ''failed to process buffer item'')
                          \<in> set (logs (Drain_item E bp item w)))"
    if item: "Entity item = EntityTask" "Operation item = OperationDelete"
      "Unmarshal_Task (Data item) = Inr t" "tID t = i"
  proof -
    have 2: "processItem E bp item w = (Some ErrTaskNotFound, w\<lparr>n_pg := Suc (n_pg w)\<rparr>)"
      using processItem_delete[OF item(1-3)] item(4) d by simp
    have 3: "tasks (Drain_item E bp item w) = tasks w"
      using Drain_item_pg_frame[OF 2] by simp
    have cond: "bucket (Drain_item E bp item w)
                       = (if MaxRetries (cfg bp) \<le> Retries item + 1
                          then Delete_key (bucketKey item) (bucket w)
                          else Put (buildKey (requeue_form E item w))
                                 (stored_form (requeue_form E item w))
                                 (Delete_key (bucketKey item) (bucket w)))
                     \<and> Retries (requeue_form E item w) = Retries item + 1
                     \<and> (ErrorLevel, ''failed to process buffer item'')
                          \<in> set (logs (Drain_item E bp item w))"
      if st: "store bp = Some st" "db st" and key: "bucketKey item \<noteq> []"
        and retries: "0 \<le> Retries item" "Retries item < 2 ^ 63 - 1"
        and bolt: "\<And>n. \<not> bolt_fails E n" and clock: "\<And>n. time_marshalable (time_Now E n)"
    proof -
      have data: "Data item \<noteq> RawInvalid" using item(3) by auto
      have r: "int64 (Retries item + 1) = Retries item + 1"
        using retries by (intro int64_id) simp_all
      have rf: "requeue_form E item (w\<lparr>n_pg := Suc (n_pg w)\<rparr>) = requeue_form E item w"
        unfolding requeue_form_def by (simp add: now_def) (rule normalize_Item_world, simp_all)
      note F = Drain_item_failed[OF st 2 key bolt data clock, unfolded r rf]
      have 4: "Retries (requeue_form E item w) = Retries item + 1"
        using requeue_form_fields[of E item w] r by simp
      show ?thesis using F 4 by simp
    qed
    from 2 3 cond show ?thesis by blast
  qed
  from d 1 drain show ?thesis by blast
qed

theorem delete_of_missing_task_witness:
  "tasks delete_World ''t1'' = None
   \<and> \<not> pg_fails ok_Env (n_pg delete_World)
   \<and> store default_Processor = Some \<lparr>db = True\<rparr>
   \<and> Unmarshal_Task (Data ((task_Item ''t1'' OperationDelete)
          \<lparr>bucketKey := ''4_00000000000000000500_t1''\<rparr>)) = Inr (zero_Task\<lparr>tID := ''t1''\<rparr>)
   \<and> (\<forall>n. \<not> bolt_fails ok_Env n) \<and> (\<forall>n. time_marshalable (time_Now ok_Env n))
   \<and> fst (DeleteTask ok_Env default_UseCase ''t1'' delete_World) = Some ErrTaskNotFound
   \<and> fst (processItem ok_Env default_Processor
           ((task_Item ''t1'' OperationDelete)\<lparr>bucketKey := ''4_00000000000000000500_t1''\<rparr>)
           delete_World) = Some ErrTaskNotFound
   \<and> Retries (requeue_form ok_Env
         ((task_Item ''t1'' OperationDelete)\<lparr>bucketKey := ''4_00000000000000000500_t1''\<rparr>)
         delete_World) = 1"
proof -
  let ?it = "(task_Item ''t1'' OperationDelete)\<lparr>bucketKey := ''4_00000000000000000500_t1''\<rparr>"
  have h1: "tasks delete_World ''t1'' = None" by code_simp
  have h2: "\<not> pg_fails ok_Env (n_pg delete_World)" by (simp add: ok_Env_def)
  have h3: "store default_Processor = Some \<lparr>db = True\<rparr>" by code_simp
  have h4: "db \<lparr>db = True\<rparr>" by simp
  have h5: "Entity ?it = EntityTask" and h6: "Operation ?it = OperationDelete"
    by (simp_all add: task_Item_def)
  have h7: "Unmarshal_Task (Data ?it) = Inr (zero_Task\<lparr>tID := ''t1''\<rparr>)"
    by (simp add: task_Item_def)
  have h8: "tID (zero_Task\<lparr>tID := ''t1''\<rparr>) = ''t1''" by simp
  have h9: "bucketKey ?it \<noteq> []" by simp
  have h10: "0 \<le> Retries ?it" and h11: "Retries ?it < 2 ^ 63 - 1"
    by (simp_all add: task_Item_def)
  have h12: "\<forall>n. \<not> bolt_fails ok_Env n" by (simp add: ok_Env_def)
  have h13: "\<forall>n. time_marshalable (time_Now ok_Env n)"
    by (simp add: ok_Env_def time_marshalable_def utc_def)
  note T = delete_of_missing_task [OF h1 h2, of default_UseCase ?it "zero_Task\<lparr>tID := ''t1''\<rparr>"
      default_Processor "\<lparr>db = True\<rparr>"]
  from T have a: "DeleteTask ok_Env default_UseCase ''t1'' delete_World
      = (Some ErrTaskNotFound, delete_World\<lparr>n_pg := Suc (n_pg delete_World)\<rparr>)"
    by (elim conjE)
  from T h5 h6 h7 h8 have b: "processItem ok_Env default_Processor ?it delete_World
      = (Some ErrTaskNotFound, delete_World\<lparr>n_pg := Suc (n_pg delete_World)\<rparr>)"
    by blast
  from T h5 h6 h7 h8 h3 h4 h9 h10 h11 h12 h13
  have c: "Retries (requeue_form ok_Env ?it delete_World) = Retries ?it + 1"
    by blast
  have r: "Retries ?it + 1 = 1" by (simp add: task_Item_def)
  show ?thesis using a b c h1 h2 h3 h7 h12 h13 unfolding r by simp
qed

text \<open>
  Claim C7 as stated fails: on an empty \<open>tasks\<close> table \<open>DeleteTask\<close> returns
  \<open>ErrTaskNotFound\<close>, not success, and a drain tick over a buffered delete of the
  absent task \<open>t1\<close> logs a failed apply and leaves the record in the bucket, requeued
  with one retry.
\<close>

theorem delete_missing_counterexample:
  "tasks empty_World ''t9'' = None
   \<and> fst (DeleteTask ok_Env default_UseCase ''t9'' empty_World) = Some ErrTaskNotFound
   \<and> tasks delete_World ''t1'' = None
   \<and> map fst (bucket delete_World) = [''4_00000000000000000500_t1'']
   \<and> bucket (snd (Drain ok_Env (Some default_Processor) delete_World))
       = [(''4_00000000000000001000_t1'',
           Doc ((task_Item ''t1'' OperationDelete)\<lparr>Retries := 1, Timestamp := utc 1000\<rparr>))]
   \<and> logs (snd (Drain ok_Env (Some default_Processor) delete_World))
       = [(ErrorLevel, ''failed to process buffer item'')]"
  by code_simp

section \<open>A processor without a monitor\<close>

lemma processItem_monitor: "processItem E (bp\<lparr>monitor := m\<rparr>) item w = processItem E bp item w"
  by (simp add: processItem_def)

lemma Drain_item_monitor: "Drain_item E (bp\<lparr>monitor := m\<rparr>) item w = Drain_item E bp item w"
  by (simp add: Drain_item_def processItem_monitor Let_def split: prod.splits option.splits)

lemma Drain_loop_monitor: "Drain_loop E (bp\<lparr>monitor := m\<rparr>) items w = Drain_loop E bp items w"
  by (induction items arbitrary: w) (simp_all add: Drain_item_monitor)

text \<open>
  Claim C10. A processor with a store and a nil monitor behaves as one whose monitor
  reports online: \<open>Drain\<close> and \<open>BufferOperation\<close> return the same result and world in
  both cases. \<open>Drain\<close> never skips the tick: it reads a batch and runs the loop over
  it. \<open>BufferOperation\<close> always attempts the immediate apply and enqueues only when
  that fails. The offline behaviour belongs to a non-nil monitor that reports offline:
  then \<open>Drain\<close> only logs the skip and \<open>BufferOperation\<close> enqueues without trying.
\<close>

theorem nil_monitor_is_online:
  assumes nil: "monitor bp = None"
    and configured: "store bp = Some st"
    and up: "IsOnline up"
    and down: "\<not> IsOnline down"
  shows "Drain E (Some bp) w = Drain E (Some (bp\<lparr>monitor := Some up\<rparr>)) w
       \<and> BufferOperation E (Some bp) item w
           = BufferOperation E (Some (bp\<lparr>monitor := Some up\<rparr>)) item w
       \<and> Drain E (Some bp) w
           = (case GetBatch E (store bp) (BatchSize (cfg bp)) w of
                (Inl err, w1) \<Rightarrow> (Some err, w1)
              | (Inr items, w1) \<Rightarrow> (None, Drain_loop E bp items w1))
       \<and> BufferOperation E (Some bp) item w
           = (case processItem E bp item w of
                (None, w1) \<Rightarrow> (None, w1)
              | (Some err, w1) \<Rightarrow>
                  Enqueue E (store bp) item
                    (log WarnLevel ''immediate processing failed, buffering'' w1))
       \<and> Drain E (Some (bp\<lparr>monitor := Some down\<rparr>)) w
           = (None, log DebugLevel ''skipping buffer drain (offline)'' w)
       \<and> BufferOperation E (Some (bp\<lparr>monitor := Some down\<rparr>)) item w
           = Enqueue E (store bp) item w"
proof -
  have 1: "Drain E (Some bp) w = Drain E (Some (bp\<lparr>monitor := Some up\<rparr>)) w"
    using nil configured up
    by (simp add: Drain_def Drain_loop_monitor split: prod.splits sum.splits)
  have 2: "BufferOperation E (Some bp) item w
           = BufferOperation E (Some (bp\<lparr>monitor := Some up\<rparr>)) item w"
    using nil configured up
    by (simp add: BufferOperation_def processItem_monitor split: prod.splits option.splits)
  have 3: "Drain E (Some bp) w
           = (case GetBatch E (store bp) (BatchSize (cfg bp)) w of
                (Inl err, w1) \<Rightarrow> (Some err, w1)
              | (Inr items, w1) \<Rightarrow> (None, Drain_loop E bp items w1))"
    using nil configured by (simp add: Drain_def)
  have 4: "BufferOperation E (Some bp) item w
           = (case processItem E bp item w of
                (None, w1) \<Rightarrow> (None, w1)
              | (Some err, w1) \<Rightarrow>
                  Enqueue E (store bp) item
                    (log WarnLevel ''immediate processing failed, buffering'' w1))"
    using nil configured by (simp add: BufferOperation_def)
  have 5: "Drain E (Some (bp\<lparr>monitor := Some down\<rparr>)) w
           = (None, log DebugLevel ''skipping buffer drain (offline)'' w)"
    using configured down by (simp add: Drain_def)
  have 6: "BufferOperation E (Some (bp\<lparr>monitor := Some down\<rparr>)) item w
           = Enqueue E (store bp) item w"
    using configured down by (simp add: BufferOperation_def)
  show ?thesis by (intro conjI 1 2 3 4 5 6)
qed

theorem nil_monitor_is_online_witness:
  "monitor default_Processor = None
   \<and> store default_Processor = Some \<lparr>db = True\<rparr>
   \<and> IsOnline online_Monitor \<and> \<not> IsOnline offline_Monitor
   \<and> bucket (snd (Drain ok_Env (Some (default_Processor\<lparr>monitor := Some online_Monitor\<rparr>))
                 buffered_World)) = []
   \<and> bucket (snd (Drain ok_Env (Some default_Processor) buffered_World)) = []
   \<and> map fst (bucket (snd (Drain ok_Env (Some (default_Processor\<lparr>monitor := Some offline_Monitor\<rparr>))
                 buffered_World)))
       = [''3_00000000000000001001_uuid-0'', ''4_00000000000000001000_t1'']"
proof -
  have h1: "monitor default_Processor = None" by code_simp
  have h2: "store default_Processor = Some \<lparr>db = True\<rparr>" by code_simp
  have h3: "IsOnline online_Monitor" by code_simp
  have h4: "\<not> IsOnline offline_Monitor" by code_simp
  note T = nil_monitor_is_online [OF h1 h2 h3 h4, of ok_Env buffered_World]
  have a: "bucket (snd (Drain ok_Env (Some (default_Processor\<lparr>monitor := Some online_Monitor\<rparr>))
                 buffered_World)) = []" by code_simp
  have b: "bucket (snd (Drain ok_Env (Some default_Processor) buffered_World)) = []"
    using T a by simp
  have c: "map fst (bucket buffered_World)
       = [''3_00000000000000001001_uuid-0'', ''4_00000000000000001000_t1'']" by code_simp
  have d: "map fst (bucket (snd (Drain ok_Env (Some (default_Processor\<lparr>monitor := Some offline_Monitor\<rparr>))
                 buffered_World)))
       = [''3_00000000000000001001_uuid-0'', ''4_00000000000000001000_t1'']"
    using T c by simp
  show ?thesis by (intro conjI h1 h2 h3 h4 a b d)
qed

section \<open>Applying a record twice\<close>

lemma processItem_profile:
  assumes "Entity item = EntityProfile" and "Unmarshal_User (Data item) = Inr u"
  shows "processItem E bp item w = (err_of (fst (Upsert E (Some u) w)), snd (Upsert E (Some u) w))"
  using assms by (simp add: processItem_def split_beta)

lemma processItem_create:
  assumes "Entity item = EntityTask" and "Operation item = OperationCreate"
    and "Unmarshal_Task (Data item) = Inr t"
  shows "processItem E bp item w = (err_of (fst (Create E (Some t) w)), snd (Create E (Some t) w))"
  using assms Entity_distinct by (simp add: processItem_def split_beta)

lemma processItem_update:
  assumes "Entity item = EntityTask" and "Operation item = OperationUpdate"
    and "Unmarshal_Task (Data item) = Inr t"
  shows "processItem E bp item w = (err_of (fst (Update E (Some t) w)), snd (Update E (Some t) w))"
  using assms Entity_distinct Operation_distinct by (simp add: processItem_def split_beta)

lemma Upsert_twice:
  fixes E :: Env and u :: User and w :: World
  assumes "\<not> pg_fails E (n_pg w)" and "\<not> pg_fails E (Suc (n_pg w))"
  defines "w1 \<equiv> snd (Upsert E (Some u) w)"
  defines "w2 \<equiv> snd (Upsert E (Some u) w1)"
  shows "err_of (fst (Upsert E (Some u) w)) = None
       \<and> err_of (fst (Upsert E (Some u) w1)) = None
       \<and> users w2 = (users w1)(uID u := map_option (\<lambda>row. row\<lparr>uUpdatedAt := time_Now E (Suc (n_now w))\<rparr>)
                                          (users w1 (uID u)))
       \<and> users w1 (uID u) \<noteq> None
       \<and> tasks w2 = tasks w1 \<and> bucket w2 = bucket w1"
  unfolding w2_def w1_def using assms(1,2)
  by (cases "users w (uID u)")
     (simp_all add: Upsert_def pg_query_def now_def Let_def err_of_def)

lemma Update_twice:
  fixes E :: Env and t :: Task and w :: World
  assumes "\<not> pg_fails E (n_pg w)" and "\<not> pg_fails E (Suc (n_pg w))"
  defines "w1 \<equiv> snd (Update E (Some t) w)"
  defines "w2 \<equiv> snd (Update E (Some t) w1)"
  shows "err_of (fst (Update E (Some t) w1)) = err_of (fst (Update E (Some t) w))
       \<and> err_of (fst (Update E (Some t) w))
           = (if tasks w (tID t) = None then Some ErrTaskNotFound else None)
       \<and> tasks w2 = (tasks w1)(tID t := map_option
              (\<lambda>row. row\<lparr>tUpdatedAt := time_Now E (Suc (n_now w))\<rparr>) (tasks w1 (tID t)))
       \<and> users w2 = users w1 \<and> bucket w2 = bucket w1"
  unfolding w2_def w1_def using assms(1,2)
  by (cases "tasks w (tID t)")
     (auto simp: Update_def pg_query_def now_def Let_def err_of_def)

lemma Create_twice:
  fixes E :: Env and t :: Task and w :: World
  assumes "\<not> pg_fails E (n_pg w)" and "\<not> pg_fails E (Suc (n_pg w))"
    and "tID t \<noteq> []" and "tasks w (tID t) = None"
  defines "w1 \<equiv> snd (Create E (Some t) w)"
  defines "w2 \<equiv> snd (Create E (Some t) w1)"
  shows "err_of (fst (Create E (Some t) w)) = None
       \<and> err_of (fst (Create E (Some t) w1)) = Some ErrPgUniqueViolation
       \<and> tasks w2 = tasks w1 \<and> users w2 = users w1 \<and> bucket w2 = bucket w1"
  unfolding w2_def w1_def using assms(1-4)
  by (simp add: Create_def pg_query_def now_def Let_def err_of_def)

lemma Delete_twice:
  fixes E :: Env and i :: string and w :: World
  assumes "\<not> pg_fails E (n_pg w)" and "\<not> pg_fails E (Suc (n_pg w))"
    and "tasks w i \<noteq> None"
  defines "w1 \<equiv> snd (Delete E i w)"
  defines "w2 \<equiv> snd (Delete E i w1)"
  shows "fst (Delete E i w) = None
       \<and> fst (Delete E i w1) = Some ErrTaskNotFound
       \<and> tasks w2 = tasks w1 \<and> users w2 = users w1 \<and> bucket w2 = bucket w1"
  unfolding w2_def w1_def using assms(1-3)
  by (simp add: Delete_def pg_query_def)

text \<open>
  Claim C6, as the code has it. Apply a record twice through \<open>processItem\<close>, Postgres
  answering both times. A (profile, update) record succeeds both times (\<open>Upsert\<close>), and
  a (task, update) record returns the same result both times (\<open>Update\<close>: success when
  the row exists, not found when it does not); for both the state after the second
  apply is the state after the first, except that the row's \<open>updated_at\<close> is the time
  of the second apply. A (task, create) record with an id that is not in the table
  succeeds the first time and fails the second time on the duplicate id (\<open>Create\<close> is
  a plain insert), and a (task, delete) record of a row that exists succeeds the first
  time and reports not found the second time; for both the second apply leaves the
  state of the first.
\<close>

theorem apply_twice:
  fixes E :: Env and bp :: BufferProcessor and item :: Item and w :: World
    and u :: User and t :: Task
  defines "r1 \<equiv> fst (processItem E bp item w)"
  defines "w1 \<equiv> snd (processItem E bp item w)"
  defines "r2 \<equiv> fst (processItem E bp item w1)"
  defines "w2 \<equiv> snd (processItem E bp item w1)"
  defines "t2 \<equiv> time_Now E (Suc (n_now w))"
  assumes pg: "\<not> pg_fails E (n_pg w)" "\<not> pg_fails E (Suc (n_pg w))"
  shows "(Entity item = EntityProfile \<and> Unmarshal_User (Data item) = Inr u \<longrightarrow>
            r1 = None \<and> r2 = None \<and> tasks w2 = tasks w1 \<and> users w1 (uID u) \<noteq> None
            \<and> users w2 = (users w1)(uID u :=
                 map_option (\<lambda>row. row\<lparr>uUpdatedAt := t2\<rparr>) (users w1 (uID u))))
       \<and> (Entity item = EntityTask \<and> Unmarshal_Task (Data item) = Inr t
            \<and> Operation item = OperationUpdate \<longrightarrow>
            r2 = r1 \<and> r1 = (if tasks w (tID t) = None then Some ErrTaskNotFound else None)
            \<and> users w2 = users w1
            \<and> tasks w2 = (tasks w1)(tID t :=
                 map_option (\<lambda>row. row\<lparr>tUpdatedAt := t2\<rparr>) (tasks w1 (tID t))))
       \<and> (Entity item = EntityTask \<and> Unmarshal_Task (Data item) = Inr t
            \<and> Operation item = OperationCreate \<and> tID t \<noteq> [] \<and> tasks w (tID t) = None \<longrightarrow>
            r1 = None \<and> r2 = Some ErrPgUniqueViolation
            \<and> users w2 = users w1 \<and> tasks w2 = tasks w1)
       \<and> (Entity item = EntityTask \<and> Unmarshal_Task (Data item) = Inr t
            \<and> Operation item = OperationDelete \<and> tasks w (tID t) \<noteq> None \<longrightarrow>
            r1 = None \<and> r2 = Some ErrTaskNotFound
            \<and> users w2 = users w1 \<and> tasks w2 = tasks w1)"
proof -
  have A: "Entity item = EntityProfile \<and> Unmarshal_User (Data item) = Inr u \<longrightarrow>
            r1 = None \<and> r2 = None \<and> tasks w2 = tasks w1 \<and> users w1 (uID u) \<noteq> None
            \<and> users w2 = (users w1)(uID u :=
                 map_option (\<lambda>row. row\<lparr>uUpdatedAt := t2\<rparr>) (users w1 (uID u)))"
  proof
    assume a: "Entity item = EntityProfile \<and> Unmarshal_User (Data item) = Inr u"
    then have p: "\<And>w. processItem E bp item w
        = (err_of (fst (Upsert E (Some u) w)), snd (Upsert E (Some u) w))"
      using processItem_profile by blast
    show "r1 = None \<and> r2 = None \<and> tasks w2 = tasks w1 \<and> users w1 (uID u) \<noteq> None
            \<and> users w2 = (users w1)(uID u :=
                 map_option (\<lambda>row. row\<lparr>uUpdatedAt := t2\<rparr>) (users w1 (uID u)))"
      unfolding r1_def r2_def w1_def w2_def t2_def p
      using Upsert_twice[OF pg, of u] by simp
  qed
  have B: "Entity item = EntityTask \<and> Unmarshal_Task (Data item) = Inr t
            \<and> Operation item = OperationUpdate \<longrightarrow>
            r2 = r1 \<and> r1 = (if tasks w (tID t) = None then Some ErrTaskNotFound else None)
            \<and> users w2 = users w1
            \<and> tasks w2 = (tasks w1)(tID t :=
                 map_option (\<lambda>row. row\<lparr>tUpdatedAt := t2\<rparr>) (tasks w1 (tID t)))"
  proof
    assume a: "Entity item = EntityTask \<and> Unmarshal_Task (Data item) = Inr t
            \<and> Operation item = OperationUpdate"
    then have p: "\<And>w. processItem E bp item w
        = (err_of (fst (Update E (Some t) w)), snd (Update E (Some t) w))"
      using processItem_update by blast
    show "r2 = r1 \<and> r1 = (if tasks w (tID t) = None then Some ErrTaskNotFound else None)
            \<and> users w2 = users w1
            \<and> tasks w2 = (tasks w1)(tID t :=
                 map_option (\<lambda>row. row\<lparr>tUpdatedAt := t2\<rparr>) (tasks w1 (tID t)))"
      unfolding r1_def r2_def w1_def w2_def t2_def p
      using Update_twice[OF pg, of t] by simp
  qed
  have C: "Entity item = EntityTask \<and> Unmarshal_Task (Data item) = Inr t
            \<and> Operation item = OperationCreate \<and> tID t \<noteq> [] \<and> tasks w (tID t) = None \<longrightarrow>
            r1 = None \<and> r2 = Some ErrPgUniqueViolation
            \<and> users w2 = users w1 \<and> tasks w2 = tasks w1"
  proof
    assume a: "Entity item = EntityTask \<and> Unmarshal_Task (Data item) = Inr t
            \<and> Operation item = OperationCreate \<and> tID t \<noteq> [] \<and> tasks w (tID t) = None"
    then have p: "\<And>w. processItem E bp item w
        = (err_of (fst (Create E (Some t) w)), snd (Create E (Some t) w))"
      using processItem_create by blast
    show "r1 = None \<and> r2 = Some ErrPgUniqueViolation
            \<and> users w2 = users w1 \<and> tasks w2 = tasks w1"
      unfolding r1_def r2_def w1_def w2_def p
      using Create_twice[OF pg, of t] a by simp
  qed
  have D: "Entity item = EntityTask \<and> Unmarshal_Task (Data item) = Inr t
            \<and> Operation item = OperationDelete \<and> tasks w (tID t) \<noteq> None \<longrightarrow>
            r1 = None \<and> r2 = Some ErrTaskNotFound
            \<and> users w2 = users w1 \<and> tasks w2 = tasks w1"
  proof
    assume a: "Entity item = EntityTask \<and> Unmarshal_Task (Data item) = Inr t
            \<and> Operation item = OperationDelete \<and> tasks w (tID t) \<noteq> None"
    then have p: "\<And>w. processItem E bp item w = Delete E (tID t) w"
      using processItem_delete by blast
    show "r1 = None \<and> r2 = Some ErrTaskNotFound
            \<and> users w2 = users w1 \<and> tasks w2 = tasks w1"
      unfolding r1_def r2_def w1_def w2_def p
      using Delete_twice[OF pg, of "tID t"] a by simp
  qed
  from A B C D show ?thesis by blast
qed

theorem apply_twice_witness:
  "\<not> pg_fails ok_Env (n_pg empty_World) \<and> \<not> pg_fails ok_Env (Suc (n_pg empty_World))
   \<and> Entity profile_Item = EntityProfile
   \<and> Unmarshal_User (Data profile_Item) = Inr (zero_User\<lparr>uID := ''u1''\<rparr>)
   \<and> fst (processItem ok_Env default_Processor profile_Item empty_World) = None
   \<and> fst (processItem ok_Env default_Processor profile_Item
           (snd (processItem ok_Env default_Processor profile_Item empty_World))) = None
   \<and> Entity (task_Item ''t1'' OperationUpdate) = EntityTask
   \<and> Unmarshal_Task (Data (task_Item ''t1'' OperationUpdate)) = Inr (zero_Task\<lparr>tID := ''t1''\<rparr>)
   \<and> Operation (task_Item ''t1'' OperationUpdate) = OperationUpdate
   \<and> fst (processItem ok_Env default_Processor (task_Item ''t1'' OperationUpdate)
           (snd (processItem ok_Env default_Processor (task_Item ''t1'' OperationUpdate)
              created_World)))
       = fst (processItem ok_Env default_Processor (task_Item ''t1'' OperationUpdate)
           created_World)"
proof -
  have h1: "\<not> pg_fails ok_Env (n_pg empty_World)"
    and h2: "\<not> pg_fails ok_Env (Suc (n_pg empty_World))" by (simp_all add: ok_Env_def)
  have h3: "Entity profile_Item = EntityProfile" by (simp add: profile_Item_def)
  have h4: "Unmarshal_User (Data profile_Item) = Inr (zero_User\<lparr>uID := ''u1''\<rparr>)"
    by (simp add: profile_Item_def)
  note P = apply_twice [OF h1 h2, where bp = default_Processor and item = profile_Item
      and u = "zero_User\<lparr>uID := ''u1''\<rparr>" and t = zero_Task]
  have c1: "fst (processItem ok_Env default_Processor profile_Item empty_World) = None"
    and c2: "fst (processItem ok_Env default_Processor profile_Item
           (snd (processItem ok_Env default_Processor profile_Item empty_World))) = None"
    using P h3 h4 by simp_all
  have g1: "\<not> pg_fails ok_Env (n_pg created_World)"
    and g2: "\<not> pg_fails ok_Env (Suc (n_pg created_World))" by (simp_all add: ok_Env_def)
  have g3: "Entity (task_Item ''t1'' OperationUpdate) = EntityTask"
    and g4: "Unmarshal_Task (Data (task_Item ''t1'' OperationUpdate)) = Inr (zero_Task\<lparr>tID := ''t1''\<rparr>)"
    and g5: "Operation (task_Item ''t1'' OperationUpdate) = OperationUpdate"
    by (simp_all add: task_Item_def)
  note U = apply_twice [OF g1 g2, where bp = default_Processor
      and item = "task_Item ''t1'' OperationUpdate"
      and u = zero_User and t = "zero_Task\<lparr>tID := ''t1''\<rparr>"]
  have c3: "fst (processItem ok_Env default_Processor (task_Item ''t1'' OperationUpdate)
           (snd (processItem ok_Env default_Processor (task_Item ''t1'' OperationUpdate)
              created_World)))
       = fst (processItem ok_Env default_Processor (task_Item ''t1'' OperationUpdate)
           created_World)"
    using U g3 g4 g5 by simp
  show ?thesis by (intro conjI h1 h2 h3 h4 c1 c2 g3 g4 g5 c3)
qed

text \<open>
  Claim C6 as stated fails: the task-create record \<open>t1\<close> applied to empty tables
  succeeds, and applied again fails on the duplicate id; the task-delete record of the
  row then succeeds, and applied again reports that the task is not found.
\<close>

theorem create_twice_counterexample:
  "tasks empty_World ''t1'' = None
   \<and> fst (processItem ok_Env default_Processor (task_Item ''t1'' OperationCreate) empty_World)
       = None
   \<and> fst (processItem ok_Env default_Processor (task_Item ''t1'' OperationCreate) created_World)
       = Some ErrPgUniqueViolation
   \<and> fst (processItem ok_Env default_Processor (task_Item ''t1'' OperationDelete) created_World)
       = None
   \<and> fst (processItem ok_Env default_Processor (task_Item ''t1'' OperationDelete)
        (snd (processItem ok_Env default_Processor (task_Item ''t1'' OperationDelete)
           created_World)))
       = Some ErrTaskNotFound"
  by code_simp


section \<open>The retry budget\<close>


















lemma budget_Nil [simp]: "budget M [] = 0"
  by (simp add: budget_def)

lemma budget_Cons [simp]: "budget M (e # b) = remaining M (snd e) + budget M b"
  by (simp add: budget_def)




















section \<open>A requeue that fails\<close>

text \<open>
  Claim C1 at a failing input. A task record is enqueued with success. Postgres is down,
  so the next drain tick fails to apply it: the count becomes one, below the budget of
  three, and the loop removes the record and requeues it. The transaction of the
  requeue fails: the error is logged, and the record is in the bucket no more, though
  it was neither applied with success nor out of retries.
\<close>

theorem requeue_failure_loses_record:
  "fst (Enqueue requeue_fault_Env open_Store (task_Item ''t1'' OperationCreate) empty_World) = None
   \<and> map fst (bucket (snd (Enqueue requeue_fault_Env open_Store
                            (task_Item ''t1'' OperationCreate) empty_World)))
       = [''4_00000000000000000500_t1'']
   \<and> MaxRetries (cfg default_Processor) = 3
   \<and> fst (Drain requeue_fault_Env (Some default_Processor)
            (snd (Enqueue requeue_fault_Env open_Store
                    (task_Item ''t1'' OperationCreate) empty_World))) = None
   \<and> bucket (snd (Drain requeue_fault_Env (Some default_Processor)
            (snd (Enqueue requeue_fault_Env open_Store
                    (task_Item ''t1'' OperationCreate) empty_World)))) = []
   \<and> tasks (snd (Drain requeue_fault_Env (Some default_Processor)
            (snd (Enqueue requeue_fault_Env open_Store
                    (task_Item ''t1'' OperationCreate) empty_World)))) ''t1'' = None
   \<and> logs (snd (Drain requeue_fault_Env (Some default_Processor)
            (snd (Enqueue requeue_fault_Env open_Store
                    (task_Item ''t1'' OperationCreate) empty_World))))
       = [(ErrorLevel, ''failed to process buffer item''),
          (ErrorLevel, ''failed to requeue buffer item'')]"
  by code_simp

end
